theory Spec2Isabelle
  imports Complex_Main "HOL-Library.Multiset"
begin

section \<open>Nearest polling units: the resolution pipeline of app.py and app2.py\<close>

text \<open>
  The two Streamlit scripts share one pipeline: a geodesic pre-filter over the loaded
  polling units (\<open>nsmallest\<close>), and in \<open>app.py\<close> a refinement loop that asks the
  OpenRouteService directions endpoint for the road distance of every pre-filtered unit,
  followed by a sort on that distance and a truncation (\<open>head\<close>).

  The embedding keeps the effects of the Python explicit:
  \<^item> DataFrames are objects in a store, addressed by number; \<open>copy\<close>, \<open>nsmallest\<close>,
    \<open>sort_values\<close> and \<open>head\<close> allocate a new frame, a column assignment
    \<open>pu["c"] = values\<close> updates the frame it is applied to;
  \<^item> every \<open>requests.post\<close> is appended to a log of the requests sent;
  \<^item> a raised exception, a call that never returns and a run that leaves the modelled
    fragment of Python are values of the result type.
\<close>

subsection \<open>Python floats and objects\<close>

text \<open>
  A float is a finite number or \<open>float('inf')\<close>. The program compares floats and never
  does arithmetic on them, so a finite double is represented by the real it denotes.
  NaN and \<open>-inf\<close> are not represented as floats: the program never writes them, and
  provider payloads carrying them as numbers are outside the model. The NaN that pandas
  shows for a missing value of a float column is the \<open>None\<close> the program put there (see
  \<open>sort_values\<close>).
\<close>

datatype pyfloat = Fin real | PInf

instantiation pyfloat :: linorder
begin

fun less_eq_pyfloat :: "pyfloat \<Rightarrow> pyfloat \<Rightarrow> bool" where
  "less_eq_pyfloat (Fin a) (Fin b) = (a \<le> b)"
| "less_eq_pyfloat (Fin a) PInf = True"
| "less_eq_pyfloat PInf (Fin b) = False"
| "less_eq_pyfloat PInf PInf = True"

definition less_pyfloat :: "pyfloat \<Rightarrow> pyfloat \<Rightarrow> bool" where
  "less_pyfloat u v = (u \<le> v \<and> \<not> v \<le> u)"

instance
proof
  fix u v w :: pyfloat
  show "(u < v) = (u \<le> v \<and> \<not> v \<le> u)"
    by (simp add: less_pyfloat_def)
  show "u \<le> u"
    by (cases u) simp_all
  show "u \<le> v \<Longrightarrow> v \<le> w \<Longrightarrow> u \<le> w"
    by (cases u; cases v; cases w) simp_all
  show "u \<le> v \<Longrightarrow> v \<le> u \<Longrightarrow> u = v"
    by (cases u; cases v) simp_all
  show "u \<le> v \<or> v \<le> u"
    by (cases u; cases v) auto
qed

end

text \<open>
  The values \<open>json()\<close> decodes to, and \<open>None\<close> and \<open>float('inf')\<close> of the failure
  branch: one universe of Python objects. A dict is its list of items.
\<close>

datatype pyobj =
    PyNone
  | PyBool bool
  | PyFloat pyfloat
  | PyStr string
  | PyList "pyobj list"
  | PyDict "(string \<times> pyobj) list"

datatype exn =
    ConnectionError
  | Timeout
  | JSONDecodeError
  | KeyError
  | IndexError
  | TypeError
  | ValueError

text \<open>
  What a call does: it returns a value, raises, never returns (\<open>Blocked\<close>), or reaches
  a point where pandas' behaviour is not modelled (\<open>Unmodelled\<close>: a dangling frame
  address, or a sort on a column holding an object that is neither a float nor \<open>None\<close>).
\<close>

datatype 'a result = Returned 'a | Raised exn | Blocked | Unmodelled

fun abort :: "'a result \<Rightarrow> 'b result" where
  "abort (Raised e) = Raised e"
| "abort Blocked = Blocked"
| "abort _ = Unmodelled"

subsection \<open>Subscripting decoded JSON\<close>

datatype key = K string | I int

text \<open>\<open>obj[k]\<close> on the objects above, with the exception Python raises.\<close>

fun getitem :: "pyobj \<Rightarrow> key \<Rightarrow> pyobj result" where
  "getitem (PyDict kvs) (K k) =
     (case map_of kvs k of None \<Rightarrow> Raised KeyError | Some v \<Rightarrow> Returned v)"
| "getitem (PyDict kvs) (I i) = Raised KeyError"
| "getitem (PyList xs) (I i) =
     (let n = int (length xs); j = (if i < 0 then n + i else i)
      in if 0 \<le> j \<and> j < n then Returned (xs ! nat j) else Raised IndexError)"
| "getitem (PyStr s) (I i) =
     (let n = int (length s); j = (if i < 0 then n + i else i)
      in if 0 \<le> j \<and> j < n then Returned (PyStr [s ! nat j]) else Raised IndexError)"
| "getitem _ _ = Raised TypeError"

fun getitems :: "pyobj \<Rightarrow> key list \<Rightarrow> pyobj result" where
  "getitems obj [] = Returned obj"
| "getitems obj (k # ks) =
     (case getitem obj k of Returned v \<Rightarrow> getitems v ks | r \<Rightarrow> abort r)"

subsection \<open>Rows, frames and the store\<close>

record geometry =
  gx :: real
  gy :: real

text \<open>
  A row of the polling-unit frame: its index label, the attributes read from the GeoJSON
  file, and the columns the scripts add (\<open>None\<close> while the frame lacks the column).
  \<open>distance_m\<close> is the column \<open>"Distance (m)"\<close> of \<open>app2.py\<close>.
\<close>

record row =
  idx :: nat
  name :: string
  ward :: string
  lga :: string
  state :: string
  geometry :: geometry
  geo_distance_m :: "pyfloat option"
  road_distance_m :: "pyobj option"
  duration_s :: "pyobj option"
  route_geojson :: "pyobj option"
  distance_m :: "pyfloat option"

record request =
  url :: string
  authorization :: "string option"
  coordinates :: "(real \<times> real) list"
  format :: string
  timeout :: "nat option"

type_synonym addr = nat

record pystate =
  frames :: "addr \<Rightarrow> row list option"
  next_addr :: addr
  sent :: "request list"

type_synonym 'a prog = "pystate \<Rightarrow> 'a result \<times> pystate"

definition return :: "'a \<Rightarrow> 'a prog" where
  "return a s = (Returned a, s)"

definition lift :: "'a result \<Rightarrow> 'a prog" where
  "lift r s = (r, s)"

definition bind :: "'a prog \<Rightarrow> ('a \<Rightarrow> 'b prog) \<Rightarrow> 'b prog" where
  "bind m f s = (case m s of (Returned a, s') \<Rightarrow> f a s' | (r, s') \<Rightarrow> (abort r, s'))"

definition get_frame :: "addr \<Rightarrow> row list prog" where
  "get_frame a s = (case frames s a of None \<Rightarrow> (Unmodelled, s) | Some rows \<Rightarrow> (Returned rows, s))"

definition new_frame :: "row list \<Rightarrow> addr prog" where
  "new_frame rows s =
     (Returned (next_addr s),
      s\<lparr>frames := (frames s)(next_addr s \<mapsto> rows), next_addr := Suc (next_addr s)\<rparr>)"

definition put_frame :: "addr \<Rightarrow> row list \<Rightarrow> unit prog" where
  "put_frame a rows s = (Returned (), s\<lparr>frames := (frames s)(a \<mapsto> rows)\<rparr>)"

subsection \<open>The pandas operations the scripts use\<close>

text \<open>\<open>df.copy()\<close>: a new frame with the same rows.\<close>

definition df_copy :: "addr \<Rightarrow> addr prog" where
  "df_copy a = bind (get_frame a) new_frame"

text \<open>
  \<open>df["c"] = values\<close>: the frame itself is updated, row by row in position. A list of
  another length raises ValueError.
\<close>

definition set_column :: "addr \<Rightarrow> (row \<Rightarrow> 'v \<Rightarrow> row) \<Rightarrow> 'v list \<Rightarrow> unit prog" where
  "set_column a upd vals =
     bind (get_frame a) (\<lambda>rows.
       if length vals \<noteq> length rows then lift (Raised ValueError)
       else put_frame a (map2 upd rows vals))"

text \<open>
  \<open>f\<close> applied to every row in frame order (\<open>df.apply(f, axis=1)\<close>, and the
  \<open>iterrows\<close> loop of \<open>app2.py\<close> that appends to a list); the first exception ends it.
\<close>

fun apply_rows :: "(row \<Rightarrow> 'v result) \<Rightarrow> row list \<Rightarrow> 'v list result" where
  "apply_rows f [] = Returned []"
| "apply_rows f (r # rs) =
     (case f r of
        Returned v \<Rightarrow>
          (case apply_rows f rs of Returned vs \<Rightarrow> Returned (v # vs) | e \<Rightarrow> abort e)
      | e \<Rightarrow> abort e)"

text \<open>
  What \<open>df.apply(f, axis=1)\<close> hands back: a Series of the results, or a frame.
\<close>

datatype 'v applied = AsSeries "'v list" | AsFrame addr

text \<open>
  \<open>df.apply(f, axis=1)\<close> on a frame with rows is that loop, and its value the Series
  of the results. On an empty frame pandas does not go through the rows: it probes
  \<open>f\<close> on an empty Series and, when that raises (as an attribute access such as
  \<open>row.geometry\<close> does), hands back a copy of the frame.
\<close>

definition df_apply :: "addr \<Rightarrow> (row \<Rightarrow> 'v result) \<Rightarrow> 'v applied prog" where
  "df_apply a f =
     bind (get_frame a) (\<lambda>rows.
       if rows = [] then bind (new_frame []) (\<lambda>c. return (AsFrame c))
       else bind (lift (apply_rows f rows)) (\<lambda>vs. return (AsSeries vs)))"

text \<open>
  \<open>df["c"] = value\<close> where \<open>value\<close> came from \<open>apply\<close>: a Series of the frame's own
  index is attached row by row; a frame with the several columns of the polling units
  cannot be set to one column and raises ValueError.
\<close>

fun set_item :: "addr \<Rightarrow> (row \<Rightarrow> 'v \<Rightarrow> row) \<Rightarrow> 'v applied \<Rightarrow> unit prog" where
  "set_item a upd (AsSeries vals) = set_column a upd vals"
| "set_item a upd (AsFrame c) = lift (Raised ValueError)"

definition float_key :: "(row \<Rightarrow> pyfloat option) \<Rightarrow> row \<Rightarrow> pyfloat" where
  "float_key col r = (case col r of Some v \<Rightarrow> v | None \<Rightarrow> PInf)"

fun as_float :: "pyobj option \<Rightarrow> pyfloat option" where
  "as_float (Some (PyFloat f)) = Some f"
| "as_float _ = None"

text \<open>
  The environment of a run: the API key read from the process environment, geopy's
  \<open>geodesic(p, q).meters\<close> (which raises ValueError on a latitude it rejects), the
  network with the routing provider behind it, the order in which pandas' default sort
  (\<open>kind='quicksort'\<close>) arranges rows, and numpy's rounding to two decimals.
  None of them is code of the repository; each is a parameter.
\<close>

datatype body = NotJson | Json pyobj

text \<open>
  What the network does with a request, given the requests sent before it: an answer
  after so many seconds with a status code and a body, a refused or broken connection,
  or no answer at all.
\<close>

datatype reply = Answer nat nat body | Refused | Silent

record env =
  ORS_API_KEY :: "string option"
  geodesic :: "real \<times> real \<Rightarrow> real \<times> real \<Rightarrow> real result"
  network :: "request list \<Rightarrow> request \<Rightarrow> reply"
  sort_order :: "(row \<Rightarrow> pyfloat) \<Rightarrow> row list \<Rightarrow> row list"
  np_round2 :: "real \<Rightarrow> real"

text \<open>
  The documented contract of \<open>sort_values\<close> with its default \<open>kind\<close>: the rows come
  back in ascending order of the key, and they are the same rows. pandas documents that
  only \<open>mergesort\<close> and \<open>stable\<close> keep the order of equal keys, so nothing is assumed
  about it.
\<close>

definition sorts :: "((row \<Rightarrow> pyfloat) \<Rightarrow> row list \<Rightarrow> row list) \<Rightarrow> bool" where
  "sorts srt = (\<forall>k rows. sorted (map k (srt k rows)) \<and> mset (srt k rows) = mset rows)"

text \<open>
  \<open>df.nsmallest(k, "c")\<close> with the default \<open>keep='first'\<close>: a new frame holding the
  \<open>k\<close> rows with the smallest values of the column, in ascending order. When \<open>k\<close> is
  smaller than the number of rows pandas selects with a merge sort, so that of equal
  values the first occurrences are kept, in order of appearance. When \<open>k\<close> is at least
  the number of rows it sorts the column with \<open>sort_values\<close> and its default sort, and
  nothing is assumed about the order of equal values. A missing column raises KeyError;
  \<open>k \<le> 0\<close> gives the empty frame.
\<close>

definition nsmallest :: "env \<Rightarrow> addr \<Rightarrow> int \<Rightarrow> (row \<Rightarrow> pyfloat option) \<Rightarrow> addr prog" where
  "nsmallest e a k col =
     bind (get_frame a) (\<lambda>rows.
       if list_ex (\<lambda>r. col r = None) rows then lift (Raised KeyError)
       else if k \<le> 0 then new_frame []
       else if length rows \<le> nat k then new_frame (sort_order e (float_key col) rows)
       else new_frame (take (nat k) (sort_key (float_key col) rows)))"

text \<open>
  \<open>df.sort_values("c")\<close> with the default \<open>na_position='last'\<close>: a new frame. The rows
  whose value is a float come first, in the order of the default sort; the rows whose
  value is missing (\<open>None\<close>, which pandas holds as NaN) follow in their order of
  appearance. A missing column raises KeyError; a column holding any other object
  (a string, a bool, a list, a dict) is not modelled.
\<close>

definition sort_values :: "env \<Rightarrow> addr \<Rightarrow> (row \<Rightarrow> pyobj option) \<Rightarrow> addr prog" where
  "sort_values e a col =
     bind (get_frame a) (\<lambda>rows.
       if list_ex (\<lambda>r. col r = None) rows then lift (Raised KeyError)
       else if list_ex (\<lambda>r. as_float (col r) = None \<and> col r \<noteq> Some PyNone) rows
         then lift Unmodelled
       else new_frame
         (sort_order e (float_key (\<lambda>r. as_float (col r)))
            (filter (\<lambda>r. as_float (col r) \<noteq> None) rows)
          @ filter (\<lambda>r. col r = Some PyNone) rows))"

text \<open>\<open>df.head(n)\<close> is \<open>df.iloc[:n]\<close>: a negative \<open>n\<close> drops the last \<open>-n\<close> rows.\<close>

definition py_head :: "int \<Rightarrow> 'a list \<Rightarrow> 'a list" where
  "py_head n xs = (if 0 \<le> n then take (nat n) xs else take (length xs - nat (- n)) xs)"

definition head :: "addr \<Rightarrow> int \<Rightarrow> addr prog" where
  "head a n = bind (get_frame a) (\<lambda>rows. new_frame (py_head n rows))"

subsection \<open>The HTTP client\<close>

record response =
  status_code :: nat
  content :: body

text \<open>
  \<open>requests.post(url, json=body, headers=headers, timeout=t)\<close>. The request is sent
  (and logged). A refused connection raises ConnectionError. Without a timeout the call
  waits for the answer however long it takes, and never returns when there is none; with a
  timeout of \<open>t\<close> seconds it raises Timeout when no answer came within \<open>t\<close>.
\<close>

definition requests_post :: "env \<Rightarrow> request \<Rightarrow> response prog" where
  "requests_post e req s =
     (let s' = s\<lparr>sent := sent s @ [req]\<rparr> in
      case network e (sent s) req of
        Refused \<Rightarrow> (Raised ConnectionError, s')
      | Silent \<Rightarrow> (case timeout req of None \<Rightarrow> (Blocked, s') | Some t \<Rightarrow> (Raised Timeout, s'))
      | Answer d code b \<Rightarrow>
          (case timeout req of
             None \<Rightarrow> (Returned \<lparr>status_code = code, content = b\<rparr>, s')
           | Some t \<Rightarrow>
               if t < d then (Raised Timeout, s')
               else (Returned \<lparr>status_code = code, content = b\<rparr>, s')))"

text \<open>\<open>r.json()\<close>\<close>

definition response_json :: "response \<Rightarrow> pyobj result" where
  "response_json r = (case content r of NotJson \<Rightarrow> Raised JSONDecodeError | Json v \<Rightarrow> Returned v)"

text \<open>\<open>try: m except Exception as e: h e\<close>\<close>

definition try_except :: "'a prog \<Rightarrow> (exn \<Rightarrow> 'a prog) \<Rightarrow> 'a prog" where
  "try_except m h s = (case m s of (Raised e, s') \<Rightarrow> h e s' | other \<Rightarrow> other)"

subsection \<open>app.py\<close>

definition ORS_DIRECTIONS_URL :: string where
  "ORS_DIRECTIONS_URL = ''https://api.openrouteservice.org/v2/directions/driving-car/geojson''"

text \<open>
  \<open>get_road_route_and_distance\<close>: one POST without a timeout and outside any
  \<open>try\<close>; on status 200 the decoded payload, the distance and the duration of the first
  segment of the first feature; on any other status \<open>(None, inf, inf)\<close>.
\<close>

definition get_road_route_and_distance ::
  "env \<Rightarrow> real \<Rightarrow> real \<Rightarrow> real \<Rightarrow> real \<Rightarrow> (pyobj \<times> pyobj \<times> pyobj) prog" where
  "get_road_route_and_distance e start_lat start_lon end_lat end_lon =
     bind (requests_post e
             \<lparr>url = ORS_DIRECTIONS_URL, authorization = ORS_API_KEY e,
              coordinates = [(start_lon, start_lat), (end_lon, end_lat)],
              format = ''geojson'', timeout = None\<rparr>)
       (\<lambda>r.
          if status_code r = 200 then
            bind (lift (response_json r)) (\<lambda>data.
            bind (lift (getitems data
                    [K ''features'', I 0, K ''properties'', K ''segments'', I 0, K ''distance'']))
              (\<lambda>distance.
            bind (lift (getitems data
                    [K ''features'', I 0, K ''properties'', K ''segments'', I 0, K ''duration'']))
              (\<lambda>duration.
            return (data, distance, duration))))
          else return (PyNone, PyFloat PInf, PyFloat PInf))"

text \<open>
  The \<open>iterrows\<close> loop of Step 2: one routing call per row, in frame order, each result
  appended to \<open>routes\<close>. An exception of a call leaves the loop and the function.
\<close>

fun routes_loop ::
  "env \<Rightarrow> real \<Rightarrow> real \<Rightarrow> row list \<Rightarrow> (nat \<times> pyobj \<times> pyobj \<times> pyobj) list
     \<Rightarrow> (nat \<times> pyobj \<times> pyobj \<times> pyobj) list prog" where
  "routes_loop e lat lon [] routes = return routes"
| "routes_loop e lat lon (r # rest) routes =
     bind (get_road_route_and_distance e lat lon (gy (geometry r)) (gx (geometry r)))
       (\<lambda>(route_geojson, dist_m, dur_s).
          routes_loop e lat lon rest (routes @ [(idx r, dist_m, dur_s, route_geojson)]))"

text \<open>
  Step 1 (quick filter by geodesic distance): the distances of all rows, a copy of the
  frame with the column \<open>geo_distance_m\<close>, and its \<open>n * 3\<close> smallest rows. The
  distances are computed before the copy is made.
\<close>

definition step1_quick_filter :: "env \<Rightarrow> addr \<Rightarrow> real \<Rightarrow> real \<Rightarrow> int \<Rightarrow> addr prog" where
  "step1_quick_filter e polling_units lat lon n =
     bind (df_apply polling_units
             (\<lambda>r. geodesic e (lat, lon) (gy (geometry r), gx (geometry r))))
       (\<lambda>distances.
     bind (df_copy polling_units) (\<lambda>pu.
     bind (set_item pu (\<lambda>r d. r\<lparr>geo_distance_m := Some (Fin d)\<rparr>) distances) (\<lambda>_.
     nsmallest e pu (n * 3) geo_distance_m)))"

text \<open>
  Step 2 (real road distance): the loop, then the three columns attached to the frame
  of Step 1.
\<close>

definition step2_road_distance :: "env \<Rightarrow> addr \<Rightarrow> real \<Rightarrow> real \<Rightarrow> unit prog" where
  "step2_road_distance e pu lat lon =
     bind (get_frame pu) (\<lambda>rows.
     bind (routes_loop e lat lon rows []) (\<lambda>routes.
     bind (set_column pu (\<lambda>r v. r\<lparr>road_distance_m := Some v\<rparr>)
             (map (\<lambda>(i, dist_m, dur_s, route). dist_m) routes)) (\<lambda>_.
     bind (set_column pu (\<lambda>r v. r\<lparr>duration_s := Some v\<rparr>)
             (map (\<lambda>(i, dist_m, dur_s, route). dur_s) routes)) (\<lambda>_.
     set_column pu (\<lambda>r v. r\<lparr>route_geojson := Some v\<rparr>)
             (map (\<lambda>(i, dist_m, dur_s, route). route) routes)))))"

text \<open>Sort by real road distance, keep the first \<open>n\<close>.\<close>

definition sort_by_road_distance :: "env \<Rightarrow> addr \<Rightarrow> int \<Rightarrow> addr prog" where
  "sort_by_road_distance e pu n =
     bind (sort_values e pu road_distance_m) (\<lambda>sorted_pu. head sorted_pu n)"

definition find_nearest_polling_units :: "env \<Rightarrow> addr \<Rightarrow> real \<Rightarrow> real \<Rightarrow> int \<Rightarrow> addr prog" where
  "find_nearest_polling_units e polling_units lat lon n =
     bind (step1_quick_filter e polling_units lat lon n) (\<lambda>pu.
     bind (step2_road_distance e pu lat lon) (\<lambda>_.
     sort_by_road_distance e pu n))"

subsection \<open>app2.py\<close>

definition ORS_DIRECTIONS_URL_app2 :: string where
  "ORS_DIRECTIONS_URL_app2 = ''https://api.openrouteservice.org/v2/directions/driving-car''"

text \<open>A row of the table \<open>find_closest_polling_units\<close> builds for display.\<close>

record display_row =
  Polling_Unit :: string
  Ward :: string
  LGA :: string
  State :: string
  Latitude :: real
  Longitude :: real
  Distance_m :: pyfloat

definition round_float :: "(real \<Rightarrow> real) \<Rightarrow> pyfloat \<Rightarrow> pyfloat" where
  "round_float rnd f = (case f of Fin d \<Rightarrow> Fin (rnd d) | PInf \<Rightarrow> PInf)"

text \<open>
  \<open>find_closest_polling_units\<close>: the parameter is rebound to a copy, the geodesic
  distances are collected in a loop and attached to the copy as \<open>"Distance (m)"\<close>, and
  the display table is built from its \<open>n\<close> smallest rows.
\<close>

definition find_closest_polling_units ::
  "env \<Rightarrow> real \<Rightarrow> real \<Rightarrow> addr \<Rightarrow> int \<Rightarrow> display_row list prog" where
  "find_closest_polling_units e lat lon polling_units n =
     bind (df_copy polling_units) (\<lambda>polling_units_copy.
     bind (get_frame polling_units_copy) (\<lambda>rows.
     bind (lift (apply_rows
             (\<lambda>pu. geodesic e (lat, lon) (gy (geometry pu), gx (geometry pu))) rows))
       (\<lambda>distances.
     bind (set_column polling_units_copy (\<lambda>r d. r\<lparr>distance_m := Some (Fin d)\<rparr>) distances)
       (\<lambda>_.
     bind (nsmallest e polling_units_copy n distance_m) (\<lambda>nearest_pus.
     bind (get_frame nearest_pus) (\<lambda>nearest.
     return (map (\<lambda>r.
       \<lparr>Polling_Unit = name r, Ward = ward r, LGA = lga r, State = state r,
        Latitude = gy (geometry r), Longitude = gx (geometry r),
        Distance_m = round_float (np_round2 e) (float_key distance_m r)\<rparr>) nearest)))))))"

text \<open>
  \<open>get_route_geojson\<close>: the POST carries \<open>timeout=10\<close> and sits in a \<open>try\<close>; every
  exception and every status other than 200 ends in \<open>None\<close>. (The \<open>st.error\<close> message
  shown on those paths is user interface and not part of the state.)
\<close>

definition get_route_geojson :: "env \<Rightarrow> real \<Rightarrow> real \<Rightarrow> real \<Rightarrow> real \<Rightarrow> pyobj prog" where
  "get_route_geojson e start_lon start_lat end_lon end_lat =
     try_except
       (bind (requests_post e
                \<lparr>url = ORS_DIRECTIONS_URL_app2, authorization = ORS_API_KEY e,
                 coordinates = [(start_lon, start_lat), (end_lon, end_lat)],
                 format = ''geojson'', timeout = Some 10\<rparr>)
          (\<lambda>resp.
             if status_code resp = 200 then lift (response_json resp)
             else return PyNone))
       (\<lambda>ex. return PyNone)"

subsection \<open>Names for the intermediate values of a run\<close>

text \<open>
  The values \<open>find_nearest_polling_units\<close> passes from one statement to the next:
  the geodesic distances of the rows, the frame with the column attached, the rows
  \<open>nsmallest\<close> keeps, the request sent for a row, what a reply becomes in
  \<open>get_road_route_and_distance\<close>, the frame with the three road columns attached, and
  the key \<open>sort_values\<close> orders by and the frame it builds. The lemmas below prove
  that the functions above compute exactly these.
\<close>

definition with_geo :: "row list \<Rightarrow> real list \<Rightarrow> row list" where
  "with_geo rows ds = map2 (\<lambda>r d. r\<lparr>geo_distance_m := Some (Fin d)\<rparr>) rows ds"

definition geo_distances :: "env \<Rightarrow> real \<Rightarrow> real \<Rightarrow> row list \<Rightarrow> real list result" where
  "geo_distances e lat lon rows =
     apply_rows (\<lambda>r. geodesic e (lat, lon) (gy (geometry r), gx (geometry r))) rows"

definition candidates :: "env \<Rightarrow> int \<Rightarrow> row list \<Rightarrow> row list" where
  "candidates e n rows =
     (if n * 3 \<le> 0 then []
      else if length rows \<le> nat (n * 3) then sort_order e (float_key geo_distance_m) rows
      else take (nat (n * 3)) (sort_key (float_key geo_distance_m) rows))"

definition route_request :: "env \<Rightarrow> real \<Rightarrow> real \<Rightarrow> row \<Rightarrow> request" where
  "route_request e lat lon r =
     \<lparr>url = ORS_DIRECTIONS_URL, authorization = ORS_API_KEY e,
      coordinates = [(lon, lat), (gx (geometry r), gy (geometry r))],
      format = ''geojson'', timeout = None\<rparr>"

definition segment_path :: "string \<Rightarrow> key list" where
  "segment_path k = [K ''features'', I 0, K ''properties'', K ''segments'', I 0, K k]"

fun route_of_reply :: "reply \<Rightarrow> (pyobj \<times> pyobj \<times> pyobj) result" where
  "route_of_reply Refused = Raised ConnectionError"
| "route_of_reply Silent = Blocked"
| "route_of_reply (Answer d code b) =
     (if code = 200 then
        (case b of
           NotJson \<Rightarrow> Raised JSONDecodeError
         | Json data \<Rightarrow>
             (case getitems data (segment_path ''distance'') of
                Returned dm \<Rightarrow>
                  (case getitems data (segment_path ''duration'') of
                     Returned ds \<Rightarrow> Returned (data, dm, ds)
                   | r \<Rightarrow> abort r)
              | r \<Rightarrow> abort r))
      else Returned (PyNone, PyFloat PInf, PyFloat PInf))"

definition attach_routes :: "row list \<Rightarrow> (nat \<times> pyobj \<times> pyobj \<times> pyobj) list \<Rightarrow> row list" where
  "attach_routes rows routes =
     map2 (\<lambda>r (i, d, t, g). r\<lparr>road_distance_m := Some d, duration_s := Some t,
                                 route_geojson := Some g\<rparr>) rows routes"

definition road_key :: "row \<Rightarrow> pyfloat" where
  "road_key = float_key (\<lambda>r. as_float (road_distance_m r))"

definition road_sorted :: "env \<Rightarrow> row list \<Rightarrow> row list" where
  "road_sorted e rows =
     sort_order e road_key (filter (\<lambda>r. as_float (road_distance_m r) \<noteq> None) rows)
     @ filter (\<lambda>r. road_distance_m r = Some PyNone) rows"

subsection \<open>A small dataset and environments for concrete runs\<close>

text \<open>
  Three polling units on the equator, \<open>A\<close> and \<open>B\<close> at the same distance from the
  query point \<open>(0, 0)\<close> and \<open>C\<close> farther away, in a store that holds only the loaded
  frame. The distance function of these runs is a stand-in for geopy's; the theorems
  hold for every distance function.
\<close>

definition polling_unit :: "nat \<Rightarrow> string \<Rightarrow> real \<Rightarrow> real \<Rightarrow> row" where
  "polling_unit i nm lo la =
     \<lparr>idx = i, name = nm, ward = ''W'', lga = ''L'', state = ''S'',
      geometry = \<lparr>gx = lo, gy = la\<rparr>, geo_distance_m = None, road_distance_m = None,
      duration_s = None, route_geojson = None, distance_m = None\<rparr>"

definition demo_units :: "row list" where
  "demo_units = [polling_unit 0 ''A'' 1 0, polling_unit 1 ''B'' (- 1) 0, polling_unit 2 ''C'' 5 0]"

definition demo_state :: pystate where
  "demo_state = \<lparr>frames = [0 \<mapsto> demo_units], next_addr = 1, sent = []\<rparr>"

definition demo_geodesic :: "real \<times> real \<Rightarrow> real \<times> real \<Rightarrow> real result" where
  "demo_geodesic p q = Returned (\<bar>fst p - fst q\<bar> + \<bar>snd p - snd q\<bar>)"

definition demo_env ::
  "(request list \<Rightarrow> request \<Rightarrow> reply) \<Rightarrow> ((row \<Rightarrow> pyfloat) \<Rightarrow> row list \<Rightarrow> row list) \<Rightarrow> env" where
  "demo_env net srt =
     \<lparr>ORS_API_KEY = Some ''key'', geodesic = demo_geodesic, network = net,
      sort_order = srt, np_round2 = (\<lambda>x. x)\<rparr>"

text \<open>A store whose loaded dataset has no unit.\<close>

definition empty_state :: pystate where
  "empty_state = \<lparr>frames = [0 \<mapsto> []], next_addr = 1, sent = []\<rparr>"

text \<open>
  A reply \<open>get_road_route_and_distance\<close> turns into a result whose distance is a float:
  any status other than 200, or a 200 whose payload has a first segment with a numeric
  \<open>distance\<close> and some \<open>duration\<close>.
\<close>

definition route_ok :: "reply \<Rightarrow> bool" where
  "route_ok rp = (case route_of_reply rp of Returned (g, PyFloat f, t) \<Rightarrow> True | _ \<Rightarrow> False)"

text \<open>A payload as the provider sends it on success, with the given distance and duration.\<close>

definition route_payload :: "real \<Rightarrow> real \<Rightarrow> pyobj" where
  "route_payload d t =
     PyDict [(''type'', PyStr ''FeatureCollection''),
       (''features'', PyList [PyDict [(''type'', PyStr ''Feature''),
          (''properties'', PyDict [(''segments'',
             PyList [PyDict [(''distance'', PyFloat (Fin d)), (''duration'', PyFloat (Fin t))]])])]])]"

text \<open>
  A provider that finds a route for every destination: 800 m to the unit at longitude 1,
  500 m to the unit at longitude -1, 9000 m to any other.
\<close>

definition routed :: "request list \<Rightarrow> request \<Rightarrow> reply" where
  "routed hist req =
     (if coordinates req ! 1 = (1, 0) then Answer 1 200 (Json (route_payload 800 60))
      else if coordinates req ! 1 = (- 1, 0) then Answer 1 200 (Json (route_payload 500 40))
      else Answer 2 200 (Json (route_payload 9000 600)))"




text \<open>
  The same dataset with a fourth unit \<open>D\<close>, geodesically farther than the other three.
\<close>

definition demo_units4 :: "row list" where
  "demo_units4 = demo_units @ [polling_unit 3 ''D'' 9 0]"

definition demo_state4 :: pystate where
  "demo_state4 = \<lparr>frames = [0 \<mapsto> demo_units4], next_addr = 1, sent = []\<rparr>"

text \<open>
  The frame condition of a program, relative to an address bound \<open>b\<close>: run from a store
  whose allocated addresses include all those below \<open>b\<close>, it ends (however it ends) in a
  store with the same frames below \<open>b\<close>, and a value it returns satisfies \<open>Q\<close>.
\<close>

definition preserves :: "addr \<Rightarrow> 'a prog \<Rightarrow> ('a \<Rightarrow> bool) \<Rightarrow> bool" where
  "preserves b m Q =
     (\<forall>s r s'. b \<le> next_addr s \<and> m s = (r, s') \<longrightarrow>
        b \<le> next_addr s' \<and> (\<forall>a<b. frames s' a = frames s a) \<and> (\<forall>x. r = Returned x \<longrightarrow> Q x))"

text \<open>
  Providers that fail for one request: the connection to the route of unit \<open>A\<close> (at
  longitude 1) is refused, or its answer is a 200 whose payload has no \<open>features\<close>, or
  there is no answer at all; every other request is answered as by \<open>routed\<close>.
\<close>

definition refusing_one :: "request list \<Rightarrow> request \<Rightarrow> reply" where
  "refusing_one hist req =
     (if coordinates req ! 1 = (1, 0) then Refused else routed hist req)"

definition malformed_one :: "request list \<Rightarrow> request \<Rightarrow> reply" where
  "malformed_one hist req =
     (if coordinates req ! 1 = (1, 0) then Answer 1 200 (Json (PyDict [(''error'', PyStr ''no route'')]))
      else routed hist req)"

definition silent_one :: "request list \<Rightarrow> request \<Rightarrow> reply" where
  "silent_one hist req =
     (if coordinates req ! 1 = (1, 0) then Silent else routed hist req)"

text \<open>
  A distance function that, like geopy 2, raises ValueError for a latitude outside
  \<open>[-90, 90]\<close>.
\<close>

definition strict_geodesic :: "real \<times> real \<Rightarrow> real \<times> real \<Rightarrow> real result" where
  "strict_geodesic p q =
     (if \<bar>fst p\<bar> > 90 \<or> \<bar>fst q\<bar> > 90 then Raised ValueError else demo_geodesic p q)"

section \<open>What the functions compute\<close>

lemma bind_ReturnedD:
  "bind m f s = (Returned b, s') \<Longrightarrow> \<exists>a s1. m s = (Returned a, s1) \<and> f a s1 = (Returned b, s')"
  by (cases "m s"; cases "fst (m s)") (auto simp: bind_def)

lemma abort_eq_Returned [simp]: "abort r \<noteq> Returned b"
  by (cases r) simp_all

lemma apply_rows_length: "apply_rows f rows = Returned vs \<Longrightarrow> length vs = length rows"
  by (induction rows arbitrary: vs) (auto split: result.splits)

lemma apply_rows_Cons_Returned:
  "apply_rows f (r # rows) = Returned vs \<longleftrightarrow>
     (\<exists>v vs'. vs = v # vs' \<and> f r = Returned v \<and> apply_rows f rows = Returned vs')"
  by (auto split: result.splits)

lemma sorts_sort_key: "sorts sort_key"
  by (simp add: sorts_def)

lemma sorts_length: "sorts srt \<Longrightarrow> length (srt k rows) = length rows"
  by (metis sorts_def size_mset)

lemma sorts_set: "sorts srt \<Longrightarrow> set (srt k rows) = set rows"
  by (metis sorts_def set_mset_mset)

lemma sorts_sorted: "sorts srt \<Longrightarrow> sorted (map k (srt k rows))"
  by (simp add: sorts_def)

lemma sorts_mset: "sorts srt \<Longrightarrow> mset (srt k rows) = mset rows"
  by (simp add: sorts_def)

lemma with_geo_no_None: "length ds = length rows \<Longrightarrow> \<not> list_ex (\<lambda>r. geo_distance_m r = None) (with_geo rows ds)"
  by (auto simp: with_geo_def list_ex_iff set_zip)

lemma step1_Unmodelled: "frames s g = None \<Longrightarrow> step1_quick_filter e g lat lon n s = (Unmodelled, s)"
  by (simp add: step1_quick_filter_def df_apply_def bind_def get_frame_def)

text \<open>
  On an empty dataset Step 1 raises: \<open>apply\<close> hands back a frame, the copy is made, and the
  assignment of line 57 raises ValueError.
\<close>

lemma step1_empty:
  "frames s g = Some [] \<Longrightarrow>
   step1_quick_filter e g lat lon n s =
     (Raised ValueError,
      s\<lparr>frames := (frames s)(next_addr s \<mapsto> [], Suc (next_addr s) \<mapsto> []),
        next_addr := Suc (Suc (next_addr s))\<rparr>)"
  by (simp add: step1_quick_filter_def df_apply_def df_copy_def bind_def get_frame_def
      new_frame_def return_def lift_def)

lemma step1_cases:
  assumes "frames s g = Some rows" and "rows \<noteq> []"
  shows "step1_quick_filter e g lat lon n s =
     (case geo_distances e lat lon rows of
        Returned ds \<Rightarrow>
          (Returned (Suc (next_addr s)),
           s\<lparr>frames := (frames s)(next_addr s \<mapsto> with_geo rows ds,
                                    Suc (next_addr s) \<mapsto> candidates e n (with_geo rows ds)),
             next_addr := Suc (Suc (next_addr s))\<rparr>)
      | r \<Rightarrow> (abort r, s))"
proof (cases "geo_distances e lat lon rows")
  case (Returned ds)
  then have len: "length ds = length rows"
    by (simp add: geo_distances_def apply_rows_length)
  from with_geo_no_None [OF this] have nn: "\<not> list_ex (\<lambda>r. geo_distance_m r = None) (with_geo rows ds)" .
  have lw: "length (with_geo rows ds) = length rows"
    by (simp add: with_geo_def len)
  show ?thesis using assms Returned len nn lw
    unfolding step1_quick_filter_def
    by (simp add: bind_def get_frame_def lift_def return_def df_copy_def new_frame_def
        set_column_def put_frame_def nsmallest_def candidates_def geo_distances_def df_apply_def
        with_geo_def [symmetric])
qed (use assms in \<open>simp_all add: step1_quick_filter_def bind_def get_frame_def lift_def
        geo_distances_def df_apply_def\<close>)

lemma get_road_route_and_distance_eq:
  "get_road_route_and_distance e lat lon (gy (geometry r)) (gx (geometry r)) s =
     (route_of_reply (network e (sent s) (route_request e lat lon r)),
      s\<lparr>sent := sent s @ [route_request e lat lon r]\<rparr>)"
  unfolding get_road_route_and_distance_def route_request_def [symmetric]
  by (cases "network e (sent s) (route_request e lat lon r)")
     (auto simp: bind_def requests_post_def route_request_def lift_def return_def
        response_json_def segment_path_def split: body.splits result.splits)

lemma routes_loop_Cons:
  "routes_loop e lat lon (r # rest) routes s =
     (case route_of_reply (network e (sent s) (route_request e lat lon r)) of
        Returned (g, d, t) \<Rightarrow>
          routes_loop e lat lon rest (routes @ [(idx r, d, t, g)])
            (s\<lparr>sent := sent s @ [route_request e lat lon r]\<rparr>)
      | x \<Rightarrow> (abort x, s\<lparr>sent := sent s @ [route_request e lat lon r]\<rparr>))"
  by (simp add: bind_def get_road_route_and_distance_eq split: result.splits)

lemma routes_loop_store:
  "frames (snd (routes_loop e lat lon rows acc s)) = frames s \<and>
   next_addr (snd (routes_loop e lat lon rows acc s)) = next_addr s"
proof (induction rows arbitrary: acc s)
  case Nil
  show ?case by (simp add: return_def)
next
  case (Cons r rows)
  show ?case
    by (simp add: routes_loop_Cons Cons del: routes_loop.simps split: result.splits prod.splits)
qed

lemma routes_loop_Returned:
  "routes_loop e lat lon rows acc s = (Returned routes, s') \<Longrightarrow>
     \<exists>rs. routes = acc @ rs \<and> map fst rs = map idx rows \<and>
          sent s' = sent s @ map (route_request e lat lon) rows"
proof (induction rows arbitrary: acc s)
  case Nil
  then show ?case by (simp add: return_def)
next
  case (Cons r rows)
  from Cons.prems obtain g d t where
    ok: "route_of_reply (network e (sent s) (route_request e lat lon r)) = Returned (g, d, t)"
    and rest: "routes_loop e lat lon rows (acc @ [(idx r, d, t, g)])
        (s\<lparr>sent := sent s @ [route_request e lat lon r]\<rparr>) = (Returned routes, s')"
    by (auto simp: routes_loop_Cons simp del: routes_loop.simps split: result.splits)
  from Cons.IH [OF rest] obtain rs where
    "routes = (acc @ [(idx r, d, t, g)]) @ rs" "map fst rs = map idx rows"
    "sent s' = (sent s @ [route_request e lat lon r]) @ map (route_request e lat lon) rows"
    by auto
  then show ?case
    by (intro exI [of _ "(idx r, d, t, g) # rs"]) simp
qed

lemma three_columns:
  "length routes = length rows \<Longrightarrow>
   map2 (\<lambda>r v. r\<lparr>route_geojson := Some v\<rparr>)
     (map2 (\<lambda>r v. r\<lparr>duration_s := Some v\<rparr>)
        (map2 (\<lambda>r v. r\<lparr>road_distance_m := Some v\<rparr>) rows
           (map (\<lambda>(i, d, t, g). d) routes))
        (map (\<lambda>(i, d, t, g). t) routes))
     (map (\<lambda>(i, d, t, g). g) routes) = attach_routes rows routes"
  by (induction routes rows rule: list_induct2) (auto simp: attach_routes_def)

lemma step2_cases:
  assumes "frames s pu = Some rows"
  shows "step2_road_distance e pu lat lon s =
     (case routes_loop e lat lon rows [] s of
        (Returned routes, s1) \<Rightarrow>
          (Returned (), s1\<lparr>frames := (frames s1)(pu \<mapsto> attach_routes rows routes)\<rparr>)
      | (x, s1) \<Rightarrow> (abort x, s1))"
proof (cases "routes_loop e lat lon rows [] s")
  case (Pair x s1)
  have st: "frames s1 = frames s"
    using routes_loop_store [of e lat lon rows "[]" s] Pair by simp
  show ?thesis
  proof (cases x)
    case (Returned routes)
    with Pair routes_loop_Returned [of e lat lon rows "[]" s routes s1]
    have "map fst routes = map idx rows" by auto
    then have len: "length routes = length rows"
      by (metis length_map)
    show ?thesis
      using assms Pair Returned st len three_columns [OF len]
      unfolding step2_road_distance_def
      by (simp add: bind_def get_frame_def set_column_def put_frame_def lift_def)
  qed (use assms Pair in \<open>simp_all add: step2_road_distance_def bind_def get_frame_def\<close>)
qed

lemma sort_by_road_distance_cases:
  assumes "frames s pu = Some rows"
  shows "sort_by_road_distance e pu n s =
     (if list_ex (\<lambda>r. road_distance_m r = None) rows then (Raised KeyError, s)
      else if list_ex (\<lambda>r. as_float (road_distance_m r) = None \<and> road_distance_m r \<noteq> Some PyNone) rows
        then (Unmodelled, s)
      else (Returned (Suc (next_addr s)),
            s\<lparr>frames := (frames s)(next_addr s \<mapsto> road_sorted e rows,
                   Suc (next_addr s) \<mapsto> py_head n (road_sorted e rows)),
              next_addr := Suc (Suc (next_addr s))\<rparr>))"
  using assms unfolding sort_by_road_distance_def sort_values_def head_def road_key_def road_sorted_def
  by (simp add: bind_def get_frame_def lift_def new_frame_def)

lemma attach_routes_floats:
  "length routes = length rows \<Longrightarrow>
   list_ex (\<lambda>r. road_distance_m r = None) (attach_routes rows routes) = False"
  by (induction routes rows rule: list_induct2) (auto simp: attach_routes_def)

text \<open>
  What a returning run of \<open>find_nearest_polling_units\<close> went through, and the store it
  leaves: four new frames (the copy with the geodesic column, the candidates with the
  road columns, the sorted frame, its head) and one request per candidate.
\<close>

lemma find_nearest_Returned:
  assumes run: "find_nearest_polling_units e g lat lon n s = (Returned a, s')"
  shows "\<exists>rows ds routes.
     frames s g = Some rows \<and> rows \<noteq> [] \<and>
     geo_distances e lat lon rows = Returned ds \<and>
     map fst routes = map idx (candidates e n (with_geo rows ds)) \<and>
     (\<forall>r \<in> set (attach_routes (candidates e n (with_geo rows ds)) routes).
        as_float (road_distance_m r) \<noteq> None \<or> road_distance_m r = Some PyNone) \<and>
     a = next_addr s + 3 \<and>
     s' = s\<lparr>frames := (frames s)
              (next_addr s \<mapsto> with_geo rows ds,
               next_addr s + 1 \<mapsto> attach_routes (candidates e n (with_geo rows ds)) routes,
               next_addr s + 2 \<mapsto>
                 road_sorted e (attach_routes (candidates e n (with_geo rows ds)) routes),
               next_addr s + 3 \<mapsto>
                 py_head n (road_sorted e
                   (attach_routes (candidates e n (with_geo rows ds)) routes))),
            next_addr := next_addr s + 4,
            sent := sent s @ map (route_request e lat lon) (candidates e n (with_geo rows ds))\<rparr>"
proof -
  from run obtain pu s1 where
    one: "step1_quick_filter e g lat lon n s = (Returned pu, s1)" and
    rest: "bind (step2_road_distance e pu lat lon) (\<lambda>_. sort_by_road_distance e pu n) s1
             = (Returned a, s')"
    unfolding find_nearest_polling_units_def by (blast dest: bind_ReturnedD)
  from rest obtain s2 where
    two: "step2_road_distance e pu lat lon s1 = (Returned (), s2)" and
    three: "sort_by_road_distance e pu n s2 = (Returned a, s')"
    by (auto dest!: bind_ReturnedD)
  from one obtain rows where rows: "frames s g = Some rows"
    by (cases "frames s g") (auto simp: step1_Unmodelled)
  from one rows have ne: "rows \<noteq> []"
    by (auto simp: step1_empty)
  from one obtain ds where ds: "geo_distances e lat lon rows = Returned ds"
    by (cases "geo_distances e lat lon rows") (auto simp: step1_cases [OF rows ne])
  define cands where "cands = candidates e n (with_geo rows ds)"
  from one have pu: "pu = Suc (next_addr s)" and
    s1: "s1 = s\<lparr>frames := (frames s)(next_addr s \<mapsto> with_geo rows ds, Suc (next_addr s) \<mapsto> cands),
             next_addr := Suc (Suc (next_addr s))\<rparr>"
    by (auto simp: step1_cases [OF rows ne] ds cands_def)
  have f1: "frames s1 pu = Some cands"
    by (simp add: s1 pu)
  from two obtain routes sl where
    loop: "routes_loop e lat lon cands [] s1 = (Returned routes, sl)" and
    s2: "s2 = sl\<lparr>frames := (frames sl)(pu \<mapsto> attach_routes cands routes)\<rparr>"
    by (cases "routes_loop e lat lon cands [] s1"; cases "fst (routes_loop e lat lon cands [] s1)")
       (auto simp: step2_cases [OF f1])
  from routes_loop_Returned [OF loop] have
    fst: "map fst routes = map idx cands" and
    log: "sent sl = sent s1 @ map (route_request e lat lon) cands"
    by auto
  from fst have len: "length routes = length cands"
    by (metis length_map)
  from routes_loop_store [of e lat lon cands "[]" s1] loop have
    st: "frames sl = frames s1" "next_addr sl = next_addr s1"
    by simp_all
  have f2: "frames s2 pu = Some (attach_routes cands routes)"
    by (simp add: s2)
  have fl: "\<not> list_ex (\<lambda>r. as_float (road_distance_m r) = None \<and> road_distance_m r \<noteq> Some PyNone)
      (attach_routes cands routes)"
    using three by (auto simp: sort_by_road_distance_cases [OF f2] split: if_splits)
  from three have a: "a = Suc (next_addr s2)" and
    s': "s' = s2\<lparr>frames := (frames s2)
              (next_addr s2 \<mapsto> road_sorted e (attach_routes cands routes),
               Suc (next_addr s2) \<mapsto> py_head n (road_sorted e (attach_routes cands routes))),
            next_addr := Suc (Suc (next_addr s2))\<rparr>"
    by (auto simp: sort_by_road_distance_cases [OF f2] split: if_splits)
  have n2: "next_addr s2 = next_addr s + 2" "sent s2 = sent s @ map (route_request e lat lon) cands"
    by (simp_all add: s2 st s1 log)
  have fr2: "frames s2 = (frames s)(next_addr s \<mapsto> with_geo rows ds, Suc (next_addr s) \<mapsto> attach_routes cands routes)"
    by (simp add: s2 st s1 pu)
  have "s' = s\<lparr>frames := (frames s)
              (next_addr s \<mapsto> with_geo rows ds,
               next_addr s + 1 \<mapsto> attach_routes cands routes,
               next_addr s + 2 \<mapsto> road_sorted e (attach_routes cands routes),
               next_addr s + 3 \<mapsto> py_head n (road_sorted e (attach_routes cands routes))),
            next_addr := next_addr s + 4,
            sent := sent s @ map (route_request e lat lon) cands\<rparr>"
    unfolding s' n2 fr2
    by (simp add: s2 st s1 log numeral_3_eq_3 numeral_2_eq_2)
  moreover have "a = next_addr s + 3"
    by (simp add: a n2)
  moreover from fl have "\<forall>r \<in> set (attach_routes cands routes).
        as_float (road_distance_m r) \<noteq> None \<or> road_distance_m r = Some PyNone"
    by (auto simp: list_ex_iff)
  ultimately show ?thesis
    using rows ne ds fst unfolding cands_def
    by (intro exI [of _ rows] exI [of _ ds] exI [of _ routes]) simp
qed

lemma geo_distances_Returned:
  assumes "\<forall>r\<in>set rows. \<exists>d. geodesic e (lat, lon) (gy (geometry r), gx (geometry r)) = Returned d"
  shows "\<exists>ds. geo_distances e lat lon rows = Returned ds"
  using assms unfolding geo_distances_def
  by (induction rows) (auto split: result.splits)

lemma length_with_geo:
  "geo_distances e lat lon rows = Returned ds \<Longrightarrow> length (with_geo rows ds) = length rows"
  by (simp add: geo_distances_def with_geo_def apply_rows_length)

lemma with_geo_member:
  assumes "geo_distances e lat lon rows = Returned ds" and "c \<in> set (with_geo rows ds)"
  shows "\<exists>r d. r \<in> set rows \<and> c = r\<lparr>geo_distance_m := Some (Fin d)\<rparr> \<and>
           geodesic e (lat, lon) (gy (geometry r), gx (geometry r)) = Returned d"
  using assms unfolding geo_distances_def with_geo_def
proof (induction rows arbitrary: ds)
  case Nil
  then show ?case by simp
next
  case (Cons r rows)
  from Cons.prems(1) obtain v vs where
    ds: "ds = v # vs" and v: "geodesic e (lat, lon) (gy (geometry r), gx (geometry r)) = Returned v"
    and vs: "apply_rows (\<lambda>r. geodesic e (lat, lon) (gy (geometry r), gx (geometry r))) rows = Returned vs"
    unfolding apply_rows_Cons_Returned by blast
  from Cons.prems(2) ds have
    "c = r\<lparr>geo_distance_m := Some (Fin v)\<rparr> \<or>
     c \<in> set (map2 (\<lambda>r d. r\<lparr>geo_distance_m := Some (Fin d)\<rparr>) rows vs)"
    by simp
  then show ?case
  proof
    assume "c = r\<lparr>geo_distance_m := Some (Fin v)\<rparr>"
    with v show ?thesis by auto
  next
    assume "c \<in> set (map2 (\<lambda>r d. r\<lparr>geo_distance_m := Some (Fin d)\<rparr>) rows vs)"
    from Cons.IH [OF vs this] show ?thesis by auto
  qed
qed

lemma with_geo_of_row:
  assumes "geo_distances e lat lon rows = Returned ds" and "u \<in> set rows"
  shows "\<exists>d. geodesic e (lat, lon) (gy (geometry u), gx (geometry u)) = Returned d \<and>
           u\<lparr>geo_distance_m := Some (Fin d)\<rparr> \<in> set (with_geo rows ds)"
  using assms unfolding geo_distances_def with_geo_def
proof (induction rows arbitrary: ds)
  case Nil
  then show ?case by simp
next
  case (Cons r rows)
  from Cons.prems(1) obtain v vs where
    ds: "ds = v # vs" and v: "geodesic e (lat, lon) (gy (geometry r), gx (geometry r)) = Returned v"
    and vs: "apply_rows (\<lambda>r. geodesic e (lat, lon) (gy (geometry r), gx (geometry r))) rows = Returned vs"
    unfolding apply_rows_Cons_Returned by blast
  show ?case
  proof (cases "u = r")
    case True
    with v ds show ?thesis by auto
  next
    case False
    with Cons.prems(2) have "u \<in> set rows" by simp
    from Cons.IH [OF vs this] ds show ?thesis by auto
  qed
qed

lemma idx_with_geo:
  "length ds = length rows \<Longrightarrow> map idx (with_geo rows ds) = map idx rows"
  by (induction ds rows rule: list_induct2) (auto simp: with_geo_def)

text \<open>The rows \<open>nsmallest\<close> keeps, on either of its two paths.\<close>

lemma set_candidates: "sorts (sort_order e) \<Longrightarrow> set (candidates e k rows) \<subseteq> set rows"
  by (auto simp: candidates_def sorts_set dest: in_set_takeD)

lemma length_candidates_any:
  "sorts (sort_order e) \<Longrightarrow> length (candidates e n rows) = min (nat (n * 3)) (length rows)"
  by (simp add: candidates_def sorts_length)

lemma sorted_candidates:
  assumes "sorts (sort_order e)"
  shows "sorted (map (float_key geo_distance_m) (candidates e k rows))"
proof -
  have "sorted (take n (map (float_key geo_distance_m) (sort_key (float_key geo_distance_m) rows)))" for n
    by (rule sorted_wrt_take) simp
  then show ?thesis
    using assms by (simp add: candidates_def take_map sorts_sorted)
qed

lemma sorts_Nil: "sorts srt \<Longrightarrow> srt k [] = []"
  using sorts_length [of srt k "[]"] by simp

lemma candidates_all:
  "sorts (sort_order e) \<Longrightarrow> int (length rows) \<le> n \<Longrightarrow> mset (candidates e n rows) = mset rows"
  by (cases rows) (auto simp: candidates_def sorts_mset sorts_Nil)

lemma candidates_nearest:
  assumes srt: "sorts (sort_order e)"
    and c: "c \<in> set (candidates e n rows)" and r: "r \<in> set rows"
    and out: "idx r \<notin> idx ` set (candidates e n rows)"
  shows "float_key geo_distance_m c \<le> float_key geo_distance_m r"
proof -
  let ?k = "float_key geo_distance_m"
  let ?L = "sort_key ?k rows"
  let ?m = "nat (n * 3)"
  from c have pos: "\<not> n * 3 \<le> 0"
    by (auto simp: candidates_def split: if_splits)
  have fast: "\<not> length rows \<le> ?m"
  proof
    assume "length rows \<le> ?m"
    with pos have "set (candidates e n rows) = set rows"
      by (simp add: candidates_def sorts_set [OF srt])
    with r out show False by blast
  qed
  with pos have cands: "candidates e n rows = take ?m ?L"
    by (simp add: candidates_def)
  from out have "r \<notin> set (take ?m ?L)"
    unfolding cands by blast
  moreover from r have "r \<in> set (take ?m ?L @ drop ?m ?L)"
    by simp
  ultimately have rd: "r \<in> set (drop ?m ?L)"
    by (simp only: set_append) blast
  have "sorted (map ?k (take ?m ?L @ drop ?m ?L))"
    by simp
  then have "\<forall>x\<in>set (take ?m ?L). \<forall>y\<in>set (drop ?m ?L). ?k x \<le> ?k y"
    by (simp only: map_append sorted_append) auto
  with c rd show ?thesis
    unfolding cands by blast
qed

text \<open>\<open>head\<close> and the frame \<open>sort_values\<close> builds.\<close>

lemma length_py_head: "0 \<le> n \<Longrightarrow> length (py_head n xs) = min (nat n) (length xs)"
  by (simp add: py_head_def)

lemma set_py_head: "set (py_head n xs) \<subseteq> set xs"
  by (auto simp: py_head_def dest: in_set_takeD)

lemma py_head_all: "int (length xs) \<le> n \<Longrightarrow> py_head n xs = xs"
  by (simp add: py_head_def)


lemma set_road_sorted: "sorts (sort_order e) \<Longrightarrow> set (road_sorted e rows) \<subseteq> set rows"
  by (auto simp: road_sorted_def sorts_set)

lemma mset_road_sorted:
  assumes srt: "sorts (sort_order e)"
    and cells: "\<forall>r\<in>set rows. as_float (road_distance_m r) \<noteq> None \<or> road_distance_m r = Some PyNone"
  shows "mset (road_sorted e rows) = mset rows"
proof -
  have "filter (\<lambda>r. road_distance_m r = Some PyNone) rows
      = filter (\<lambda>r. \<not> as_float (road_distance_m r) \<noteq> None) rows"
    using cells by (intro filter_cong) auto
  then show ?thesis
    by (simp add: road_sorted_def sorts_mset [OF srt] del: not_not)
qed

lemma length_road_sorted:
  assumes "sorts (sort_order e)"
    and "\<forall>r\<in>set rows. as_float (road_distance_m r) \<noteq> None \<or> road_distance_m r = Some PyNone"
  shows "length (road_sorted e rows) = length rows"
  using mset_road_sorted [OF assms] by (metis size_mset)

lemma length_attach_routes:
  "length routes = length rows \<Longrightarrow> length (attach_routes rows routes) = length rows"
  by (simp add: attach_routes_def)

lemma idx_attach_routes:
  "length routes = length rows \<Longrightarrow> map idx (attach_routes rows routes) = map idx rows"
  by (induction routes rows rule: list_induct2) (auto simp: attach_routes_def)

lemma nth_attach_routes:
  "length routes = length rows \<Longrightarrow> i < length rows \<Longrightarrow>
   \<exists>d t g. attach_routes rows routes ! i =
     (rows ! i)\<lparr>road_distance_m := Some d, duration_s := Some t, route_geojson := Some g\<rparr>"
  by (cases "routes ! i") (auto simp: attach_routes_def)

lemma attach_routes_member:
  assumes "length routes = length rows" and "r \<in> set (attach_routes rows routes)"
  shows "\<exists>c\<in>set rows. \<exists>d t g.
     r = c\<lparr>road_distance_m := Some d, duration_s := Some t, route_geojson := Some g\<rparr>"
proof -
  from assms obtain i where i: "i < length rows" "r = attach_routes rows routes ! i"
    by (metis in_set_conv_nth length_attach_routes)
  with nth_attach_routes [OF assms(1) i(1)] show ?thesis
    by (metis nth_mem)
qed

lemma route_ok_Returned:
  "route_ok rp \<Longrightarrow> \<exists>g f t. route_of_reply rp = Returned (g, PyFloat f, t)"
  by (auto simp: route_ok_def split: result.splits pyobj.splits)

lemma routes_loop_total:
  assumes ok: "\<forall>hist req. route_ok (network e hist req)"
  shows "\<exists>routes s'. routes_loop e lat lon rows acc s = (Returned routes, s') \<and>
           (list_all (\<lambda>(i, d, t, g). as_float (Some d) \<noteq> None) acc \<longrightarrow>
            list_all (\<lambda>(i, d, t, g). as_float (Some d) \<noteq> None) routes)"
proof (induction rows arbitrary: acc s)
  case Nil
  show ?case by (simp add: return_def)
next
  case (Cons r rows)
  from ok route_ok_Returned obtain g f t where
    rp: "route_of_reply (network e (sent s) (route_request e lat lon r)) = Returned (g, PyFloat f, t)"
    by blast
  from Cons [of "acc @ [(idx r, PyFloat f, t, g)]" "s\<lparr>sent := sent s @ [route_request e lat lon r]\<rparr>"]
  show ?case
    by (auto simp: routes_loop_Cons rp simp del: routes_loop.simps)
qed

lemma attach_routes_all_floats:
  "length routes = length rows \<Longrightarrow>
   list_all (\<lambda>(i, d, t, g). as_float (Some d) \<noteq> None) routes \<Longrightarrow>
   \<not> list_ex (\<lambda>r. as_float (road_distance_m r) = None) (attach_routes rows routes)"
  by (induction routes rows rule: list_induct2) (auto simp: attach_routes_def)

text \<open>
  On a dataset with at least one unit the pipeline returns whenever \<open>geodesic\<close> returns
  for every unit and every reply of the provider yields a float distance.
\<close>

lemma find_nearest_returns:
  assumes rows: "frames s g = Some rows" and ne: "rows \<noteq> []"
    and geo: "\<forall>r\<in>set rows. \<exists>d. geodesic e (lat, lon) (gy (geometry r), gx (geometry r)) = Returned d"
    and ok: "\<forall>hist req. route_ok (network e hist req)"
  shows "\<exists>a s'. find_nearest_polling_units e g lat lon n s = (Returned a, s')"
proof -
  from geo_distances_Returned [OF geo] obtain ds where
    ds: "geo_distances e lat lon rows = Returned ds" ..
  define cands where "cands = candidates e n (with_geo rows ds)"
  define s1 where "s1 = s\<lparr>frames := (frames s)(next_addr s \<mapsto> with_geo rows ds,
      Suc (next_addr s) \<mapsto> cands), next_addr := Suc (Suc (next_addr s))\<rparr>"
  have one: "step1_quick_filter e g lat lon n s = (Returned (Suc (next_addr s)), s1)"
    by (simp add: step1_cases [OF rows ne] ds s1_def cands_def)
  have f1: "frames s1 (Suc (next_addr s)) = Some cands"
    by (simp add: s1_def)
  from routes_loop_total [OF ok, of lat lon cands "[]" s1] obtain routes sl where
    loop: "routes_loop e lat lon cands [] s1 = (Returned routes, sl)" and
    fl: "list_all (\<lambda>(i, d, t, g). as_float (Some d) \<noteq> None) routes"
    by auto
  from routes_loop_Returned [OF loop] have "map fst routes = map idx cands"
    by auto
  then have len: "length routes = length cands"
    by (metis length_map)
  define s2 where "s2 = sl\<lparr>frames := (frames sl)(Suc (next_addr s) \<mapsto> attach_routes cands routes)\<rparr>"
  have two: "step2_road_distance e (Suc (next_addr s)) lat lon s1 = (Returned (), s2)"
    by (simp add: step2_cases [OF f1] loop s2_def)
  have f2: "frames s2 (Suc (next_addr s)) = Some (attach_routes cands routes)"
    by (simp add: s2_def)
  from attach_routes_all_floats [OF len fl]
  have "\<not> list_ex (\<lambda>r. as_float (road_distance_m r) = None \<and> road_distance_m r \<noteq> Some PyNone)
      (attach_routes cands routes)"
    by (auto simp: list_ex_iff)
  then have "\<exists>a s'. sort_by_road_distance e (Suc (next_addr s)) n s2 = (Returned a, s')"
    using attach_routes_floats [OF len]
    by (simp add: sort_by_road_distance_cases [OF f2])
  then show ?thesis
    unfolding find_nearest_polling_units_def
    by (simp add: bind_def one two)
qed

text \<open>
  The frame a returning run hands back: the head of the sorted frame of the refined
  candidates, each of which is a candidate of Step 1 with its three road columns; one
  request was sent per candidate.
\<close>

lemma find_nearest_result:
  assumes run: "find_nearest_polling_units e g lat lon n s = (Returned a, s')"
  shows "\<exists>rows ds refined res.
     frames s g = Some rows \<and> rows \<noteq> [] \<and> geo_distances e lat lon rows = Returned ds \<and>
     frames s' a = Some res \<and>
     res = py_head n (road_sorted e refined) \<and>
     length refined = length (candidates e n (with_geo rows ds)) \<and>
     map idx refined = map idx (candidates e n (with_geo rows ds)) \<and>
     (\<forall>r\<in>set refined. as_float (road_distance_m r) \<noteq> None \<or> road_distance_m r = Some PyNone) \<and>
     (\<forall>r\<in>set refined. \<exists>c\<in>set (candidates e n (with_geo rows ds)). \<exists>d t g'.
        r = c\<lparr>road_distance_m := Some d, duration_s := Some t, route_geojson := Some g'\<rparr>) \<and>
     sent s' = sent s @ map (route_request e lat lon) (candidates e n (with_geo rows ds))"
proof -
  from find_nearest_Returned [OF run] obtain rows ds routes where
    rows: "frames s g = Some rows" and ne: "rows \<noteq> []" and
    ds: "geo_distances e lat lon rows = Returned ds" and
    fst: "map fst routes = map idx (candidates e n (with_geo rows ds))" and
    fl: "\<forall>r \<in> set (attach_routes (candidates e n (with_geo rows ds)) routes).
        as_float (road_distance_m r) \<noteq> None \<or> road_distance_m r = Some PyNone" and
    a: "a = next_addr s + 3" and
    s': "s' = s\<lparr>frames := (frames s)
              (next_addr s \<mapsto> with_geo rows ds,
               next_addr s + 1 \<mapsto> attach_routes (candidates e n (with_geo rows ds)) routes,
               next_addr s + 2 \<mapsto>
                 road_sorted e (attach_routes (candidates e n (with_geo rows ds)) routes),
               next_addr s + 3 \<mapsto>
                 py_head n (road_sorted e
                   (attach_routes (candidates e n (with_geo rows ds)) routes))),
            next_addr := next_addr s + 4,
            sent := sent s @ map (route_request e lat lon) (candidates e n (with_geo rows ds))\<rparr>"
    by blast
  define cands where "cands = candidates e n (with_geo rows ds)"
  define refined where "refined = attach_routes cands routes"
  from fst have len: "length routes = length cands"
    unfolding cands_def by (metis length_map)
  have res: "frames s' a = Some (py_head n (road_sorted e refined))"
    by (simp add: s' a refined_def cands_def)
  have log: "sent s' = sent s @ map (route_request e lat lon) cands"
    by (simp add: s' cands_def)
  from attach_routes_member [OF len]
  have mem: "\<forall>r\<in>set refined. \<exists>c\<in>set cands. \<exists>d t g'.
        r = c\<lparr>road_distance_m := Some d, duration_s := Some t, route_geojson := Some g'\<rparr>"
    unfolding refined_def by blast
  from fl have cells: "\<forall>r\<in>set refined.
      as_float (road_distance_m r) \<noteq> None \<or> road_distance_m r = Some PyNone"
    by (simp add: refined_def cands_def)
  have "length refined = length cands" "map idx refined = map idx cands"
    by (simp_all add: refined_def length_attach_routes [OF len] idx_attach_routes [OF len])
  with rows ne ds res log mem cells show ?thesis
    unfolding cands_def
    by (intro exI [of _ rows] exI [of _ ds] exI [of _ refined]
        exI [of _ "py_head n (road_sorted e refined)"]) simp
qed

lemma demo_geodesic_returns:
  "\<forall>r\<in>set rows. \<exists>d. geodesic (demo_env net srt) (lat, lon) (gy (geometry r), gx (geometry r)) = Returned d"
  by (simp add: demo_env_def demo_geodesic_def)

lemma demo_sorts: "sorts (sort_order (demo_env net sort_key))"
  by (simp add: demo_env_def sorts_sort_key)

lemmas demo_defs = demo_state_def demo_units_def polling_unit_def demo_env_def demo_geodesic_def

lemmas run_defs = find_nearest_polling_units_def step1_quick_filter_def step2_road_distance_def
  sort_by_road_distance_def bind_def get_frame_def new_frame_def put_frame_def df_copy_def
  set_column_def nsmallest_def sort_values_def head_def py_head_def requests_post_def
  get_road_route_and_distance_def return_def lift_def float_key_def response_json_def df_apply_def

section \<open>The geodesic pre-filter\<close>

text \<open>
  On a dataset with at least one unit Step 1 of \<open>find_nearest_polling_units\<close> returns a
  frame of exactly \<open>min (k * 3) |dataset|\<close> candidates, in ascending order of their
  geodesic distance from the query point, whenever \<open>geodesic\<close> returns a distance for
  every unit.
\<close>

lemma prefilter_on_units:
  assumes "sorts (sort_order e)" and "frames s g = Some rows" and "rows \<noteq> []"
    and "\<forall>r\<in>set rows. \<exists>d. geodesic e (lat, lon) (gy (geometry r), gx (geometry r)) = Returned d"
  shows "\<exists>pu s1 cands. step1_quick_filter e g lat lon k s = (Returned pu, s1) \<and>
           frames s1 pu = Some cands \<and>
           length cands = min (nat (k * 3)) (length rows) \<and>
           sorted (map (float_key geo_distance_m) cands) \<and>
           (\<forall>c\<in>set cands. \<exists>d. geo_distance_m c = Some (Fin d) \<and>
              geodesic e (lat, lon) (gy (geometry c), gx (geometry c)) = Returned d)"
proof -
  from geo_distances_Returned [OF assms(4)] obtain ds where
    ds: "geo_distances e lat lon rows = Returned ds" ..
  let ?cands = "candidates e k (with_geo rows ds)"
  have "step1_quick_filter e g lat lon k s =
          (Returned (Suc (next_addr s)),
           s\<lparr>frames := (frames s)(next_addr s \<mapsto> with_geo rows ds, Suc (next_addr s) \<mapsto> ?cands),
             next_addr := Suc (Suc (next_addr s))\<rparr>)"
    by (simp add: step1_cases [OF assms(2,3)] ds)
  moreover have "length ?cands = min (nat (k * 3)) (length rows)"
    by (simp add: length_candidates_any [OF assms(1)] length_with_geo [OF ds])
  moreover have "\<exists>d. geo_distance_m c = Some (Fin d) \<and>
      geodesic e (lat, lon) (gy (geometry c), gx (geometry c)) = Returned d"
    if "c \<in> set ?cands" for c
  proof -
    from that set_candidates [OF assms(1)] have "c \<in> set (with_geo rows ds)" by blast
    from with_geo_member [OF ds this] show ?thesis by auto
  qed
  ultimately show ?thesis
    using sorted_candidates [OF assms(1), of k "with_geo rows ds"] by simp
qed

text \<open>
  C4 does not hold of \<open>app.py\<close> on a dataset without units, where the pre-filter is to
  return \<open>min (k * 3) 0 = 0\<close> candidates. There \<open>polling_units.apply(..., axis=1)\<close>
  hands back a frame, and the assignment \<open>pu["geo_distance_m"] = distances\<close> of line 57
  raises ValueError: Step 1 returns no candidate frame. \<open>find_closest_polling_units\<close>
  of \<open>app2.py\<close>, which collects the distances in a loop of its own, returns the empty
  table on the same dataset. On the dataset of four units, queried from longitude -2,
  Step 1 returns the three nearest units \<open>B, A, C\<close> in ascending order of distance.
\<close>

theorem prefilter_raises_on_empty_dataset:
  "fst (step1_quick_filter (demo_env routed sort_key) 0 0 (- 2) 1 empty_state) = Raised ValueError \<and>
   fst (find_closest_polling_units (demo_env routed sort_key) 0 (- 2) 0 1 empty_state) = Returned [] \<and>
   fst (step1_quick_filter (demo_env routed sort_key) 0 0 (- 2) 1 demo_state4) = Returned 2 \<and>
   map_option (map (\<lambda>r. (idx r, geo_distance_m r)))
     (frames (snd (step1_quick_filter (demo_env routed sort_key) 0 0 (- 2) 1 demo_state4)) 2)
     = Some [(1, Some (Fin 1)), (0, Some (Fin 3)), (2, Some (Fin 7))]"
  by (simp add: find_closest_polling_units_def run_defs demo_defs empty_state_def
      demo_state4_def demo_units4_def)

section \<open>Ranking\<close>

text \<open>
  Ranking (\<open>sort_values\<close>, then \<open>head\<close>) returns exactly \<open>min n |refined|\<close> entries
  for every refined frame and every count \<open>n \<ge> 0\<close>.
\<close>

lemma ranking_count:
  assumes srt: "sorts (sort_order e)" and n: "0 \<le> n" and f: "frames s pu = Some refined"
    and run: "sort_by_road_distance e pu n s = (Returned a, s')"
  shows "\<exists>res. frames s' a = Some res \<and> length res = min (nat n) (length refined)"
proof -
  from run have res: "frames s' a = Some (py_head n (road_sorted e refined))"
    and cells: "\<forall>r\<in>set refined. as_float (road_distance_m r) \<noteq> None \<or> road_distance_m r = Some PyNone"
    by (auto simp: sort_by_road_distance_cases [OF f] list_ex_iff split: if_splits)
  from res show ?thesis
    by (simp add: length_py_head [OF n] length_road_sorted [OF srt cells])
qed

text \<open>
  A returning run of the whole pipeline hands back exactly \<open>min n |dataset|\<close> entries
  (none for \<open>n \<le> 0\<close>), and all units when \<open>n\<close> is at least the size of the dataset.
\<close>

lemma pipeline_count:
  assumes srt: "sorts (sort_order e)" and rows: "frames s g = Some rows"
    and run: "find_nearest_polling_units e g lat lon n s = (Returned a, s')"
  shows "\<exists>res. frames s' a = Some res \<and> length res = min (nat n) (length rows) \<and>
           (int (length rows) \<le> n \<longrightarrow> mset (map idx res) = mset (map idx rows))"
proof -
  from find_nearest_result [OF run] rows obtain ds refined where
    ds: "geo_distances e lat lon rows = Returned ds" and
    res: "frames s' a = Some (py_head n (road_sorted e refined))" and
    len: "length refined = length (candidates e n (with_geo rows ds))" and
    ids: "map idx refined = map idx (candidates e n (with_geo rows ds))" and
    cells: "\<forall>r\<in>set refined. as_float (road_distance_m r) \<noteq> None \<or> road_distance_m r = Some PyNone"
    by auto
  let ?res = "py_head n (road_sorted e refined)"
  have lw: "length (with_geo rows ds) = length rows"
    by (rule length_with_geo [OF ds])
  have lr: "length refined = min (nat (n * 3)) (length rows)"
    by (simp add: len length_candidates_any [OF srt] lw)
  have ls: "length (road_sorted e refined) = length refined"
    by (rule length_road_sorted [OF srt cells])
  have "length ?res = min (nat n) (length rows)"
  proof (cases "0 \<le> n")
    case True
    then show ?thesis
      by (simp add: length_py_head ls lr)
  next
    case False
    then have "refined = []"
      using lr by simp
    with ls have "road_sorted e refined = []"
      by simp
    with False show ?thesis
      by (simp add: py_head_def)
  qed
  moreover have "mset (map idx ?res) = mset (map idx rows)" if big: "int (length rows) \<le> n"
  proof -
    from big lr have "int (length refined) \<le> n"
      by linarith
    then have "?res = road_sorted e refined"
      by (simp add: py_head_all ls)
    moreover have "mset (road_sorted e refined) = mset refined"
      by (rule mset_road_sorted [OF srt cells])
    ultimately have "mset (map idx ?res) = mset (map idx refined)"
      by (metis mset_map)
    also have "\<dots> = mset (map idx (with_geo rows ds))"
      using candidates_all [OF srt, of "with_geo rows ds" n] big lw
      by (simp add: ids)
    also have "\<dots> = mset (map idx rows)"
    proof -
      from ds have "length ds = length rows"
        by (simp add: geo_distances_def apply_rows_length)
      then show ?thesis
        by (simp only: idx_with_geo)
    qed
    finally show ?thesis .
  qed
  ultimately show ?thesis
    using res by blast
qed

text \<open>
  C5 does not hold of \<open>app.py\<close> on a dataset without units. With a count of 5, larger
  than the dataset, the ranking is to return all available units, that is none, without
  an error; the call raises ValueError in Step 1 (the assignment of line 57) before any
  routing request is sent, and the ranking is never reached. With the same count on the
  dataset of three units the call returns all three, ordered by road distance.
\<close>

theorem ranking_unreached_on_empty_dataset:
  "fst (find_nearest_polling_units (demo_env routed sort_key) 0 0 0 5 empty_state) = Raised ValueError \<and>
   sent (snd (find_nearest_polling_units (demo_env routed sort_key) 0 0 0 5 empty_state)) = [] \<and>
   fst (find_nearest_polling_units (demo_env routed sort_key) 0 0 0 5 demo_state) = Returned 4 \<and>
   map_option (map idx)
     (frames (snd (find_nearest_polling_units (demo_env routed sort_key) 0 0 0 5 demo_state)) 4)
     = Some [1, 0, 2]"
  by (simp add: run_defs demo_defs empty_state_def routed_def route_payload_def)


section \<open>The order of the result\<close>




section \<open>The result comes from the pre-filtered set\<close>

text \<open>
  C10. Every entry of the final result is one of the \<open>min (n * 3) |dataset|\<close>
  candidates Step 1 kept (with the three road columns attached), and those are
  geodesically nearest: a unit of the dataset that is not among the candidates never
  appears in the result, whatever the provider answers, and its geodesic distance is at
  least that of every candidate.
\<close>

theorem result_within_prefilter:
  assumes srt: "sorts (sort_order e)" and rows: "frames s g = Some rows"
    and run: "find_nearest_polling_units e g lat lon n s = (Returned a, s')"
  shows "\<exists>pu s1 cands res.
           step1_quick_filter e g lat lon n s = (Returned pu, s1) \<and>
           frames s1 pu = Some cands \<and>
           length cands = min (nat (n * 3)) (length rows) \<and>
           frames s' a = Some res \<and>
           (\<forall>r\<in>set res. \<exists>c\<in>set cands.
              r = c\<lparr>road_distance_m := road_distance_m r, duration_s := duration_s r,
                    route_geojson := route_geojson r\<rparr>) \<and>
           (\<forall>u\<in>set rows. idx u \<notin> idx ` set cands \<longrightarrow>
              idx u \<notin> idx ` set res \<and>
              (\<forall>c\<in>set cands. \<exists>dc du.
                 geodesic e (lat, lon) (gy (geometry c), gx (geometry c)) = Returned dc \<and>
                 geodesic e (lat, lon) (gy (geometry u), gx (geometry u)) = Returned du \<and>
                 dc \<le> du))"
proof -
  from find_nearest_result [OF run] rows obtain ds refined where
    ne: "rows \<noteq> []" and
    ds: "geo_distances e lat lon rows = Returned ds" and
    res: "frames s' a = Some (py_head n (road_sorted e refined))" and
    mem: "\<forall>r\<in>set refined. \<exists>c\<in>set (candidates e n (with_geo rows ds)). \<exists>d t g'.
        r = c\<lparr>road_distance_m := Some d, duration_s := Some t, route_geojson := Some g'\<rparr>"
    by auto
  define cands where "cands = candidates e n (with_geo rows ds)"
  let ?res = "py_head n (road_sorted e refined)"
  let ?s1 = "s\<lparr>frames := (frames s)(next_addr s \<mapsto> with_geo rows ds, Suc (next_addr s) \<mapsto> cands),
             next_addr := Suc (Suc (next_addr s))\<rparr>"
  have one: "step1_quick_filter e g lat lon n s = (Returned (Suc (next_addr s)), ?s1)"
    by (simp add: step1_cases [OF rows ne] ds cands_def)
  have f1: "frames ?s1 (Suc (next_addr s)) = Some cands"
    by simp
  have len: "length cands = min (nat (n * 3)) (length rows)"
    by (simp add: cands_def length_candidates_any [OF srt] length_with_geo [OF ds])
  have sub: "set ?res \<subseteq> set refined"
    using set_py_head [of n "road_sorted e refined"] set_road_sorted [OF srt, of refined] by blast
  have from_cand: "\<exists>c\<in>set cands.
      r = c\<lparr>road_distance_m := road_distance_m r, duration_s := duration_s r,
            route_geojson := route_geojson r\<rparr>" if "r \<in> set ?res" for r
  proof -
    from that sub mem obtain c d t g' where c: "c \<in> set cands" and
      "r = c\<lparr>road_distance_m := Some d, duration_s := Some t, route_geojson := Some g'\<rparr>"
      unfolding cands_def by blast
    then have "r = c\<lparr>road_distance_m := road_distance_m r, duration_s := duration_s r,
            route_geojson := route_geojson r\<rparr>"
      by simp
    with c show ?thesis by blast
  qed
  have outside: "idx u \<notin> idx ` set ?res \<and>
      (\<forall>c\<in>set cands. \<exists>dc du.
         geodesic e (lat, lon) (gy (geometry c), gx (geometry c)) = Returned dc \<and>
         geodesic e (lat, lon) (gy (geometry u), gx (geometry u)) = Returned du \<and> dc \<le> du)"
    if u: "u \<in> set rows" and out: "idx u \<notin> idx ` set cands" for u
  proof
    show "idx u \<notin> idx ` set ?res"
    proof
      assume "idx u \<in> idx ` set ?res"
      then obtain r where r: "r \<in> set ?res" "idx u = idx r" by blast
      from from_cand [OF r(1)] obtain c where "c \<in> set cands" "idx r = idx c"
        by (metis (no_types, lifting) row.select_convs(1) row.surjective row.update_convs(8,9,10))
      with r(2) out show False by force
    qed
  next
    from with_geo_of_row [OF ds u] obtain du where
      du: "geodesic e (lat, lon) (gy (geometry u), gx (geometry u)) = Returned du" and
      uw: "u\<lparr>geo_distance_m := Some (Fin du)\<rparr> \<in> set (with_geo rows ds)"
      by blast
    show "\<forall>c\<in>set cands. \<exists>dc du.
         geodesic e (lat, lon) (gy (geometry c), gx (geometry c)) = Returned dc \<and>
         geodesic e (lat, lon) (gy (geometry u), gx (geometry u)) = Returned du \<and> dc \<le> du"
    proof
      fix c assume c: "c \<in> set cands"
      then have "c \<in> set (with_geo rows ds)"
        using set_candidates [OF srt] unfolding cands_def by blast
      from with_geo_member [OF ds this] obtain dc where
        dc: "geo_distance_m c = Some (Fin dc)"
          "geodesic e (lat, lon) (gy (geometry c), gx (geometry c)) = Returned dc"
        by auto
      from out have "idx (u\<lparr>geo_distance_m := Some (Fin du)\<rparr>) \<notin> idx ` set (candidates e n (with_geo rows ds))"
        by (simp add: cands_def)
      from candidates_nearest [OF srt c [unfolded cands_def] uw this] dc(1)
      have "dc \<le> du"
        by (simp add: float_key_def)
      with dc(2) du show "\<exists>dc du.
         geodesic e (lat, lon) (gy (geometry c), gx (geometry c)) = Returned dc \<and>
         geodesic e (lat, lon) (gy (geometry u), gx (geometry u)) = Returned du \<and> dc \<le> du"
        by blast
    qed
  qed
  from one f1 len res from_cand outside show ?thesis
    by (intro exI [of _ "Suc (next_addr s)"] exI [of _ ?s1] exI [of _ cands] exI [of _ ?res]) blast
qed

theorem result_within_prefilter_witness:
  "sorts (sort_order (demo_env routed sort_key)) \<and> frames demo_state4 0 = Some demo_units4 \<and>
   (\<exists>a s' res. find_nearest_polling_units (demo_env routed sort_key) 0 0 0 1 demo_state4 = (Returned a, s') \<and>
      frames s' a = Some res \<and> polling_unit 3 ''D'' 9 0 \<in> set demo_units4 \<and> 3 \<notin> idx ` set res)"
proof -
  let ?e = "demo_env routed sort_key"
  let ?D = "polling_unit 3 ''D'' 9 0"
  have h1: "frames demo_state4 0 = Some demo_units4"
    by (simp add: demo_state4_def)
  have "fst (find_nearest_polling_units ?e 0 0 0 1 demo_state4) = Returned 4"
    by (simp add: run_defs demo_defs demo_state4_def demo_units4_def routed_def route_payload_def)
  then obtain s' where run: "find_nearest_polling_units ?e 0 0 0 1 demo_state4 = (Returned 4, s')"
    by (cases "find_nearest_polling_units ?e 0 0 0 1 demo_state4") simp
  have one: "fst (step1_quick_filter ?e 0 0 0 1 demo_state4) = Returned 2 \<and>
      map_option (map idx) (frames (snd (step1_quick_filter ?e 0 0 0 1 demo_state4)) 2) = Some [0, 1, 2]"
    by (simp add: run_defs demo_defs demo_state4_def demo_units4_def)
  from result_within_prefilter [OF demo_sorts h1 run] obtain pu s1 cands res where
    step: "step1_quick_filter ?e 0 0 0 1 demo_state4 = (Returned pu, s1)" and
    cands: "frames s1 pu = Some cands" and res: "frames s' 4 = Some res" and
    outside: "\<forall>u\<in>set demo_units4. idx u \<notin> idx ` set cands \<longrightarrow> idx u \<notin> idx ` set res"
    by blast
  from one step cands have "map idx cands = [0, 1, 2]"
    by simp
  then have "idx ` set cands = {0, 1, 2}"
    by (metis list.set_map list.simps(15) empty_set)
  moreover have D: "?D \<in> set demo_units4" "idx ?D = 3"
    by (simp_all add: demo_units4_def polling_unit_def)
  ultimately have "3 \<notin> idx ` set res"
    using outside by (metis insertE empty_iff numeral_eq_iff one_eq_numeral_iff
        semiring_norm(86,87,89) zero_neq_numeral)
  with run res D(1) have "\<exists>a s' res. find_nearest_polling_units ?e 0 0 0 1 demo_state4 = (Returned a, s') \<and>
      frames s' a = Some res \<and> ?D \<in> set demo_units4 \<and> 3 \<notin> idx ` set res"
    by (intro exI conjI)
  with demo_sorts [of routed] h1 show ?thesis
    by (intro conjI)
qed

section \<open>Refinement\<close>

text \<open>
  The routes the loop of Step 2 collects: the entry at each position holds the index
  label of the row at that position and the distance, duration and payload that
  \<open>get_road_route_and_distance\<close> made of the reply to that row's own request, which
  was sent after the requests of the rows before it.
\<close>

lemma routes_loop_values:
  "routes_loop e lat lon rows acc s = (Returned routes, s') \<Longrightarrow>
     \<exists>rs. routes = acc @ rs \<and> length rs = length rows \<and>
       (\<forall>i<length rows. \<exists>g d t.
          route_of_reply (network e (sent s @ map (route_request e lat lon) (take i rows))
            (route_request e lat lon (rows ! i))) = Returned (g, d, t) \<and>
          rs ! i = (idx (rows ! i), d, t, g))"
proof (induction rows arbitrary: acc s)
  case Nil
  then show ?case by (simp add: return_def)
next
  case (Cons r rows)
  let ?s1 = "s\<lparr>sent := sent s @ [route_request e lat lon r]\<rparr>"
  from Cons.prems obtain g d t where
    ok: "route_of_reply (network e (sent s) (route_request e lat lon r)) = Returned (g, d, t)"
    and rest: "routes_loop e lat lon rows (acc @ [(idx r, d, t, g)]) ?s1 = (Returned routes, s')"
    by (auto simp: routes_loop_Cons simp del: routes_loop.simps split: result.splits)
  from Cons.IH [OF rest] obtain rs where
    routes: "routes = (acc @ [(idx r, d, t, g)]) @ rs" and len: "length rs = length rows" and
    each: "\<forall>i<length rows. \<exists>g d t.
          route_of_reply (network e (sent ?s1 @ map (route_request e lat lon) (take i rows))
            (route_request e lat lon (rows ! i))) = Returned (g, d, t) \<and>
          rs ! i = (idx (rows ! i), d, t, g)"
    by blast
  have "\<exists>g' d' t'.
          route_of_reply (network e (sent s @ map (route_request e lat lon) (take i (r # rows)))
            (route_request e lat lon ((r # rows) ! i))) = Returned (g', d', t') \<and>
          ((idx r, d, t, g) # rs) ! i = (idx ((r # rows) ! i), d', t', g')"
    if "i < length (r # rows)" for i
  proof (cases i)
    case 0
    with ok show ?thesis by simp
  next
    case (Suc j)
    with that have "j < length rows" by simp
    with each Suc show ?thesis by simp
  qed
  with routes len show ?case
    by (intro exI [of _ "(idx r, d, t, g) # rs"]) simp
qed

lemma nth_attach_routes_eq:
  "length routes = length rows \<Longrightarrow> i < length rows \<Longrightarrow> routes ! i = (j, d, t, g) \<Longrightarrow>
   attach_routes rows routes ! i =
     (rows ! i)\<lparr>road_distance_m := Some d, duration_s := Some t, route_geojson := Some g\<rparr>"
  by (simp add: attach_routes_def)

text \<open>
  When Step 2 returns, it has produced exactly one output row per input row, in the
  same order: the frame holds as many rows as before, the row at each position is the
  input row at that position with the three road columns set to what the reply to its
  own request gave, and one routing request was sent per row, in row order.
\<close>

lemma refinement_in_order:
  assumes f: "frames s pu = Some cands"
    and run: "step2_road_distance e pu lat lon s = (Returned (), s')"
  shows "\<exists>refined. frames s' pu = Some refined \<and> length refined = length cands \<and>
           (\<forall>i<length cands. \<exists>g d t.
              route_of_reply (network e (sent s @ map (route_request e lat lon) (take i cands))
                (route_request e lat lon (cands ! i))) = Returned (g, d, t) \<and>
              refined ! i = (cands ! i)\<lparr>road_distance_m := Some d, duration_s := Some t,
                                          route_geojson := Some g\<rparr>) \<and>
           sent s' = sent s @ map (route_request e lat lon) cands"
proof -
  from run obtain routes sl where
    loop: "routes_loop e lat lon cands [] s = (Returned routes, sl)" and
    s': "s' = sl\<lparr>frames := (frames sl)(pu \<mapsto> attach_routes cands routes)\<rparr>"
    by (cases "routes_loop e lat lon cands [] s"; cases "fst (routes_loop e lat lon cands [] s)")
       (auto simp: step2_cases [OF f])
  from routes_loop_Returned [OF loop] have
    log: "sent sl = sent s @ map (route_request e lat lon) cands"
    by auto
  from routes_loop_values [OF loop] have len: "length routes = length cands" and
    each: "\<forall>i<length cands. \<exists>g d t.
          route_of_reply (network e (sent s @ map (route_request e lat lon) (take i cands))
            (route_request e lat lon (cands ! i))) = Returned (g, d, t) \<and>
          routes ! i = (idx (cands ! i), d, t, g)"
    by auto
  have "\<exists>g d t.
      route_of_reply (network e (sent s @ map (route_request e lat lon) (take i cands))
        (route_request e lat lon (cands ! i))) = Returned (g, d, t) \<and>
      attach_routes cands routes ! i =
        (cands ! i)\<lparr>road_distance_m := Some d, duration_s := Some t, route_geojson := Some g\<rparr>"
    if i: "i < length cands" for i
  proof -
    from each i obtain g d t where
      rp: "route_of_reply (network e (sent s @ map (route_request e lat lon) (take i cands))
            (route_request e lat lon (cands ! i))) = Returned (g, d, t)" and
      ri: "routes ! i = (idx (cands ! i), d, t, g)"
      by blast
    from nth_attach_routes_eq [OF len i ri] rp show ?thesis
      by blast
  qed
  moreover have "frames s' pu = Some (attach_routes cands routes)"
    "sent s' = sent s @ map (route_request e lat lon) cands"
    by (simp_all add: s' log)
  ultimately show ?thesis
    using length_attach_routes [OF len] by (intro exI [of _ "attach_routes cands routes"]) simp
qed

text \<open>
  C8 does not hold of \<open>app.py\<close>: Step 2 produces an output row per input row only when
  every routing call returns. Queried from longitude -2, Step 1 leaves the candidates
  \<open>B, A, C\<close> in frame 2. With a provider that refuses the connection for \<open>A\<close>, Step 2
  obtains the route of \<open>B\<close>, ends with ConnectionError at the second request, and the
  candidate frame is as Step 1 left it: no row has a road distance, there is no output
  candidate for \<open>B\<close>, \<open>A\<close> or \<open>C\<close>. With a provider that routes every request, the
  same call gives \<open>B\<close> its 500 m, \<open>A\<close> its 800 m and \<open>C\<close> its 9000 m, in input order.
\<close>

theorem refinement_aborts_without_output:
  "fst (step1_quick_filter (demo_env refusing_one sort_key) 0 0 (- 2) 1 demo_state) = Returned 2 \<and>
   fst (step2_road_distance (demo_env refusing_one sort_key) 2 0 (- 2)
          (snd (step1_quick_filter (demo_env refusing_one sort_key) 0 0 (- 2) 1 demo_state)))
     = Raised ConnectionError \<and>
   length (sent (snd (step2_road_distance (demo_env refusing_one sort_key) 2 0 (- 2)
          (snd (step1_quick_filter (demo_env refusing_one sort_key) 0 0 (- 2) 1 demo_state))))) = 2 \<and>
   map_option (map (\<lambda>r. (idx r, road_distance_m r)))
     (frames (snd (step2_road_distance (demo_env refusing_one sort_key) 2 0 (- 2)
          (snd (step1_quick_filter (demo_env refusing_one sort_key) 0 0 (- 2) 1 demo_state)))) 2)
     = Some [(1, None), (0, None), (2, None)] \<and>
   fst (step2_road_distance (demo_env routed sort_key) 2 0 (- 2)
          (snd (step1_quick_filter (demo_env routed sort_key) 0 0 (- 2) 1 demo_state)))
     = Returned () \<and>
   map_option (map (\<lambda>r. (idx r, road_distance_m r)))
     (frames (snd (step2_road_distance (demo_env routed sort_key) 2 0 (- 2)
          (snd (step1_quick_filter (demo_env routed sort_key) 0 0 (- 2) 1 demo_state)))) 2)
     = Some [(1, Some (PyFloat (Fin 500))), (0, Some (PyFloat (Fin 800))),
             (2, Some (PyFloat (Fin 9000)))]"
  by (simp add: run_defs demo_defs refusing_one_def routed_def route_payload_def)

lemma preservesI:
  assumes "\<And>s r s'. b \<le> next_addr s \<Longrightarrow> m s = (r, s') \<Longrightarrow>
     b \<le> next_addr s' \<and> (\<forall>a<b. frames s' a = frames s a) \<and> (\<forall>x. r = Returned x \<longrightarrow> Q x)"
  shows "preserves b m Q"
  using assms unfolding preserves_def by blast

lemma preservesD:
  assumes "preserves b m Q" and "b \<le> next_addr s" and "m s = (r, s')"
  shows "b \<le> next_addr s'" and "\<And>a. a < b \<Longrightarrow> frames s' a = frames s a"
    and "\<And>x. r = Returned x \<Longrightarrow> Q x"
  using assms unfolding preserves_def by blast+

lemma preserves_weaken: "preserves b m Q \<Longrightarrow> (\<And>x. Q x \<Longrightarrow> R x) \<Longrightarrow> preserves b m R"
  unfolding preserves_def by blast

lemma preserves_return: "Q x \<Longrightarrow> preserves b (return x) Q"
  by (simp add: preserves_def return_def)

lemma preserves_lift: "(\<And>x. r = Returned x \<Longrightarrow> Q x) \<Longrightarrow> preserves b (lift r) Q"
  by (simp add: preserves_def lift_def)

lemma preserves_lift_not_Returned:
  "preserves b (lift (Raised x)) Q" "preserves b (lift Blocked) Q" "preserves b (lift Unmodelled) Q"
  by (simp_all add: preserves_def lift_def)

lemma preserves_bind:
  assumes m: "preserves b m Q" and f: "\<And>x. Q x \<Longrightarrow> preserves b (f x) R"
  shows "preserves b (bind m f) R"
proof (rule preservesI)
  fix s r s' assume b: "b \<le> next_addr s" and run: "bind m f s = (r, s')"
  obtain r1 s1 where m1: "m s = (r1, s1)"
    by (cases "m s")
  note d = preservesD [OF m b m1]
  show "b \<le> next_addr s' \<and> (\<forall>a<b. frames s' a = frames s a) \<and> (\<forall>x. r = Returned x \<longrightarrow> R x)"
  proof (cases r1)
    case (Returned x)
    with run m1 have fx: "f x s1 = (r, s')"
      by (simp add: bind_def)
    from d(3) [OF Returned] have "Q x" .
    from preservesD [OF f [OF this] d(1) fx] d(2) show ?thesis
      by simp
  next
    case (Raised x)
    with run m1 d show ?thesis by (auto simp: bind_def)
  next
    case Blocked
    with run m1 d show ?thesis by (auto simp: bind_def)
  next
    case Unmodelled
    with run m1 d show ?thesis by (auto simp: bind_def)
  qed
qed

lemma preserves_get_frame: "preserves b (get_frame a) (\<lambda>_. True)"
  by (auto simp: preserves_def get_frame_def split: option.splits)

lemma preserves_new_frame: "preserves b (new_frame rows) (\<lambda>a. b \<le> a)"
  by (auto simp: preserves_def new_frame_def)

lemma preserves_put_frame: "b \<le> a \<Longrightarrow> preserves b (put_frame a rows) (\<lambda>_. True)"
  by (auto simp: preserves_def put_frame_def)

lemma preserves_df_copy: "preserves b (df_copy a) (\<lambda>a'. b \<le> a')"
  unfolding df_copy_def
  by (rule preserves_bind [OF preserves_get_frame]) (rule preserves_new_frame)

lemma preserves_set_column: "b \<le> a \<Longrightarrow> preserves b (set_column a upd vals) (\<lambda>_. True)"
  unfolding set_column_def
  by (rule preserves_bind [OF preserves_get_frame])
     (simp add: preserves_lift_not_Returned preserves_put_frame)

lemma preserves_nsmallest: "preserves b (nsmallest e a k col) (\<lambda>a'. b \<le> a')"
  unfolding nsmallest_def
  by (rule preserves_bind [OF preserves_get_frame])
     (simp add: preserves_lift_not_Returned preserves_new_frame)

lemma preserves_sort_values: "preserves b (sort_values e a col) (\<lambda>a'. b \<le> a')"
  unfolding sort_values_def
  by (rule preserves_bind [OF preserves_get_frame])
     (simp add: preserves_lift_not_Returned preserves_new_frame)

lemma preserves_head: "preserves b (head a n) (\<lambda>a'. b \<le> a')"
  unfolding head_def
  by (rule preserves_bind [OF preserves_get_frame]) (rule preserves_new_frame)

lemma preserves_routes_loop: "preserves b (routes_loop e lat lon rows acc) (\<lambda>_. True)"
proof (rule preservesI)
  fix s r s' assume "b \<le> next_addr s" and "routes_loop e lat lon rows acc s = (r, s')"
  with routes_loop_store [of e lat lon rows acc s]
  show "b \<le> next_addr s' \<and> (\<forall>a<b. frames s' a = frames s a) \<and> (\<forall>x. r = Returned x \<longrightarrow> True)"
    by simp
qed

lemma preserves_df_apply: "preserves b (df_apply a f) (\<lambda>_. True)"
  unfolding df_apply_def
  by (intro preserves_bind [OF preserves_get_frame])
     (simp add: preserves_bind [OF preserves_new_frame] preserves_return
        preserves_bind [OF preserves_lift [of _ "\<lambda>_. True"]])

lemma preserves_set_item: "b \<le> a \<Longrightarrow> preserves b (set_item a upd v) (\<lambda>_. True)"
  by (cases v) (simp_all add: preserves_set_column preserves_lift_not_Returned)

lemma preserves_step1: "preserves b (step1_quick_filter e g lat lon n) (\<lambda>pu. b \<le> pu)"
  unfolding step1_quick_filter_def
  by (intro preserves_bind [OF preserves_df_apply] preserves_bind [OF preserves_df_copy]
      preserves_bind [OF preserves_set_item] preserves_nsmallest) simp_all

lemma preserves_step2: "b \<le> pu \<Longrightarrow> preserves b (step2_road_distance e pu lat lon) (\<lambda>_. True)"
  unfolding step2_road_distance_def
  by (intro preserves_bind [OF preserves_get_frame] preserves_bind [OF preserves_routes_loop]
      preserves_bind [OF preserves_set_column] preserves_set_column) simp_all

lemma preserves_sort_by_road_distance: "preserves b (sort_by_road_distance e pu n) (\<lambda>a. b \<le> a)"
  unfolding sort_by_road_distance_def
  by (intro preserves_bind [OF preserves_sort_values] preserves_head)

lemma preserves_find_nearest: "preserves b (find_nearest_polling_units e g lat lon n) (\<lambda>a. b \<le> a)"
  unfolding find_nearest_polling_units_def
  by (intro preserves_bind [OF preserves_step1] preserves_bind [OF preserves_step2]
      preserves_sort_by_road_distance)

lemma preserves_find_closest: "preserves b (find_closest_polling_units e lat lon g n) (\<lambda>_. True)"
  unfolding find_closest_polling_units_def
  by (intro preserves_bind [OF preserves_df_copy] preserves_bind [OF preserves_get_frame]
      preserves_bind [OF preserves_lift [of _ "\<lambda>_. True"]]
      preserves_bind [OF preserves_set_column] preserves_bind [OF preserves_nsmallest]
      preserves_return) simp_all

section \<open>The loaded dataset is not mutated\<close>

text \<open>
  C9. No resolution call mutates the loaded polling-unit collection: every frame that
  exists when \<open>find_nearest_polling_units\<close> or \<open>find_closest_polling_units\<close> is called
  (the loaded dataset among them) holds exactly the same rows and attributes when the
  call ends, whether it returns, raises or never comes back. The distance and route
  columns are written only to frames allocated during the call.
\<close>

theorem dataset_not_mutated:
  assumes "a < next_addr s"
  shows "frames (snd (find_nearest_polling_units e g lat lon n s)) a = frames s a \<and>
         frames (snd (find_closest_polling_units e lat lon g n s)) a = frames s a"
proof
  show "frames (snd (find_nearest_polling_units e g lat lon n s)) a = frames s a"
    using preservesD(2) [OF preserves_find_nearest [of "next_addr s" e g lat lon n] order_refl _ assms]
    by (cases "find_nearest_polling_units e g lat lon n s") simp
  show "frames (snd (find_closest_polling_units e lat lon g n s)) a = frames s a"
    using preservesD(2) [OF preserves_find_closest [of "next_addr s" e lat lon g n] order_refl _ assms]
    by (cases "find_closest_polling_units e lat lon g n s") simp
qed

theorem dataset_not_mutated_witness:
  "0 < next_addr demo_state \<and>
   frames (snd (find_nearest_polling_units (demo_env routed sort_key) 0 0 0 2 demo_state)) 0
     = Some demo_units \<and>
   frames (snd (find_closest_polling_units (demo_env routed sort_key) 0 0 0 2 demo_state)) 0
     = Some demo_units"
proof -
  have h: "0 < next_addr demo_state" and f: "frames demo_state 0 = Some demo_units"
    by (simp_all add: demo_state_def)
  from dataset_not_mutated [OF h, of "demo_env routed sort_key" 0 0 0 2] h f show ?thesis
    by simp
qed

section \<open>Failures of a routing request\<close>

text \<open>
  C1 does not hold of \<open>app.py\<close>: only a status other than 200 is converted to
  \<open>(None, inf, inf)\<close>. With three candidates \<open>A, B, C\<close> and a provider that fails for
  \<open>A\<close> alone, a refused connection ends the whole call with ConnectionError and a 200
  without \<open>features\<close> ends it with KeyError, in both cases after the first request and
  with no result frame; the routes of \<open>B\<close> and \<open>C\<close> are never asked for.
  \<open>get_route_geojson\<close> of \<open>app2.py\<close> returns \<open>None\<close> under the same provider.
\<close>

theorem routing_exception_aborts_batch:
  "fst (find_nearest_polling_units (demo_env refusing_one sort_key) 0 0 0 1 demo_state)
     = Raised ConnectionError \<and>
   length (sent (snd (find_nearest_polling_units (demo_env refusing_one sort_key) 0 0 0 1 demo_state)))
     = 1 \<and>
   fst (find_nearest_polling_units (demo_env malformed_one sort_key) 0 0 0 1 demo_state)
     = Raised KeyError \<and>
   length (sent (snd (find_nearest_polling_units (demo_env malformed_one sort_key) 0 0 0 1 demo_state)))
     = 1 \<and>
   fst (get_route_geojson (demo_env refusing_one sort_key) 0 0 1 0 demo_state) = Returned PyNone"
  by (simp add: run_defs demo_defs refusing_one_def malformed_one_def routed_def route_payload_def
      get_route_geojson_def try_except_def)

text \<open>
  C6 does not hold of \<open>app.py\<close>: the request of \<open>get_road_route_and_distance\<close> carries
  no timeout, so with a provider that never answers the request for \<open>A\<close> the call never
  returns. \<open>get_route_geojson\<close> of \<open>app2.py\<close> sends its request with a timeout of 10
  seconds and returns \<open>None\<close> when it expires.
\<close>

theorem routing_request_has_no_timeout:
  "map timeout (sent (snd (find_nearest_polling_units (demo_env silent_one sort_key) 0 0 0 1 demo_state)))
     = [None] \<and>
   fst (find_nearest_polling_units (demo_env silent_one sort_key) 0 0 0 1 demo_state) = Blocked \<and>
   map timeout (sent (snd (get_route_geojson (demo_env silent_one sort_key) 0 0 1 0 demo_state)))
     = [Some 10] \<and>
   fst (get_route_geojson (demo_env silent_one sort_key) 0 0 1 0 demo_state) = Returned PyNone"
  by (simp add: run_defs demo_defs silent_one_def routed_def route_payload_def
      get_route_geojson_def try_except_def)


lemma geo_distances_Raised:
  assumes "rows \<noteq> []"
    and "\<forall>r\<in>set rows. geodesic e (lat, lon) (gy (geometry r), gx (geometry r)) = Raised x"
  shows "geo_distances e lat lon rows = Raised x"
  using assms by (cases rows) (simp_all add: geo_distances_def)

section \<open>Invalid queries\<close>

text \<open>
  C2 (as amended). The pipeline validates nothing itself and raises no error of its own.
  For a requested count \<open>n \<le> 0\<close> (on a dataset with at least one unit) it sends no
  routing request and returns an empty frame. A latitude is rejected only where
  \<open>geodesic\<close> rejects it: if \<open>geodesic\<close> raises for the query point (for every unit
  of a non-empty dataset), that exception leaves \<open>find_nearest_polling_units\<close> with the
  store and the request log untouched, so before any routing request.
\<close>

theorem invalid_query_behaviour:
  assumes srt: "sorts (sort_order e)" and rows: "frames s g = Some rows"
  shows "(n \<le> 0 \<longrightarrow> rows \<noteq> [] \<longrightarrow>
            (\<forall>r\<in>set rows. \<exists>d. geodesic e (lat, lon) (gy (geometry r), gx (geometry r)) = Returned d) \<longrightarrow>
            (\<exists>a s'. find_nearest_polling_units e g lat lon n s = (Returned a, s') \<and>
               frames s' a = Some [] \<and> sent s' = sent s)) \<and>
         (rows \<noteq> [] \<longrightarrow>
            (\<forall>r\<in>set rows. geodesic e (lat, lon) (gy (geometry r), gx (geometry r)) = Raised x) \<longrightarrow>
            find_nearest_polling_units e g lat lon n s = (Raised x, s))"
proof (intro conjI impI)
  assume n: "n \<le> 0" and ne: "rows \<noteq> []"
    and geo: "\<forall>r\<in>set rows. \<exists>d. geodesic e (lat, lon) (gy (geometry r), gx (geometry r)) = Returned d"
  from geo_distances_Returned [OF geo] obtain ds where
    ds: "geo_distances e lat lon rows = Returned ds" ..
  from n have c: "candidates e n (with_geo rows ds) = []"
    by (simp add: candidates_def)
  let ?s1 = "s\<lparr>frames := (frames s)(next_addr s \<mapsto> with_geo rows ds, Suc (next_addr s) \<mapsto> []),
             next_addr := Suc (Suc (next_addr s))\<rparr>"
  have one: "step1_quick_filter e g lat lon n s = (Returned (Suc (next_addr s)), ?s1)"
    by (simp add: step1_cases [OF rows ne] ds c)
  have f1: "frames ?s1 (Suc (next_addr s)) = Some []"
    by simp
  have two: "step2_road_distance e (Suc (next_addr s)) lat lon ?s1 = (Returned (), ?s1)"
    by (simp add: step2_cases [OF f1] return_def attach_routes_def)
  have e: "road_sorted e [] = []"
    by (simp add: road_sorted_def sorts_Nil [OF srt])
  have "find_nearest_polling_units e g lat lon n s =
      (Returned (next_addr s + 3),
       ?s1\<lparr>frames := (frames ?s1)(next_addr ?s1 \<mapsto> [], Suc (next_addr ?s1) \<mapsto> []),
           next_addr := Suc (Suc (next_addr ?s1))\<rparr>)"
    unfolding find_nearest_polling_units_def
    by (simp add: bind_def one two sort_by_road_distance_cases [OF f1] e py_head_def)
  then show "\<exists>a s'. find_nearest_polling_units e g lat lon n s = (Returned a, s') \<and>
               frames s' a = Some [] \<and> sent s' = sent s"
    by simp
next
  assume ne: "rows \<noteq> []"
    and "\<forall>r\<in>set rows. geodesic e (lat, lon) (gy (geometry r), gx (geometry r)) = Raised x"
  then have "geo_distances e lat lon rows = Raised x"
    by (rule geo_distances_Raised)
  then show "find_nearest_polling_units e g lat lon n s = (Raised x, s)"
    unfolding find_nearest_polling_units_def
    by (simp add: bind_def step1_cases [OF rows ne])
qed

theorem invalid_query_behaviour_witness:
  "sorts (sort_order (demo_env routed sort_key)) \<and> frames demo_state 0 = Some demo_units \<and>
   (0::int) \<le> 0 \<and> demo_units \<noteq> [] \<and>
   (\<exists>a s'. find_nearest_polling_units (demo_env routed sort_key) 0 0 0 0 demo_state = (Returned a, s') \<and>
      frames s' a = Some [] \<and> sent s' = []) \<and>
   find_nearest_polling_units ((demo_env routed sort_key)\<lparr>geodesic := strict_geodesic\<rparr>) 0 200 0 1 demo_state
     = (Raised ValueError, demo_state)"
proof -
  let ?e = "demo_env routed sort_key"
  let ?f = "?e\<lparr>geodesic := strict_geodesic\<rparr>"
  have h1: "frames demo_state 0 = Some demo_units"
    by (simp add: demo_state_def)
  have sf: "sorts (sort_order ?f)"
    by (simp add: demo_env_def sorts_sort_key)
  have ne: "demo_units \<noteq> []"
    by (simp add: demo_units_def)
  have rej: "\<forall>r\<in>set demo_units. geodesic ?f (200, 0) (gy (geometry r), gx (geometry r)) = Raised ValueError"
    by (simp add: strict_geodesic_def)
  from invalid_query_behaviour [OF demo_sorts [of routed] h1, where n = 0 and lat = 0 and lon = 0,
      THEN conjunct1] ne
    demo_geodesic_returns [of demo_units routed sort_key 0 0]
  obtain a s' where
    "find_nearest_polling_units ?e 0 0 0 0 demo_state = (Returned a, s')"
    "frames s' a = Some []" "sent s' = sent demo_state"
    by auto
  then have zero: "\<exists>a s'. find_nearest_polling_units ?e 0 0 0 0 demo_state = (Returned a, s') \<and>
      frames s' a = Some [] \<and> sent s' = []"
    by (auto simp: demo_state_def)
  from invalid_query_behaviour [OF sf h1, where n = 1 and lat = 200 and lon = 0 and x = ValueError,
      THEN conjunct2] ne rej
  have "find_nearest_polling_units ?f 0 200 0 1 demo_state = (Raised ValueError, demo_state)"
    by blast
  with demo_sorts [of routed] h1 ne zero show ?thesis
    by simp
qed

text \<open>
  C2 as stated fails: with \<open>n = 0\<close> the call returns (an empty frame) instead of
  raising.
\<close>

theorem zero_count_counterexample:
  "fst (find_nearest_polling_units (demo_env routed sort_key) 0 0 0 0 demo_state) = Returned 4 \<and>
   frames (snd (find_nearest_polling_units (demo_env routed sort_key) 0 0 0 0 demo_state)) 4 = Some [] \<and>
   sent (snd (find_nearest_polling_units (demo_env routed sort_key) 0 0 0 0 demo_state)) = []"
  by (simp add: run_defs demo_defs)

end
